theory Spec2Isabelle
  imports Complex_Main
begin

section \<open>Python strings\<close>

text \<open>
  Text is a \<^typ>\<open>string\<close>; a \<^typ>\<open>char\<close> stands for the code point of the same number
  (code points below 256). The functions of this section are the methods of Python's
  \<open>str\<close> that \<open>test.py\<close> and \<open>graphs.py\<close> call.
\<close>

definition is_space :: "char \<Rightarrow> bool" where
  \<comment> \<open>\<open>str.isspace\<close> on one character\<close>
  "is_space c = (of_char c \<in> {9, 10, 11, 12, 13, 28, 29, 30, 31, 32, 133, 160 :: nat})"

definition strip :: "string \<Rightarrow> string" where
  \<comment> \<open>\<open>s.strip()\<close>\<close>
  "strip s = rev (dropWhile is_space (rev (dropWhile is_space s)))"

fun split_ws_from :: "string \<Rightarrow> string \<Rightarrow> string list" where
  "split_ws_from cur [] = (if cur = [] then [] else [cur])"
| "split_ws_from cur (c # cs) =
     (if is_space c then (if cur = [] then split_ws_from [] cs else cur # split_ws_from [] cs)
      else split_ws_from (cur @ [c]) cs)"

definition split_ws :: "string \<Rightarrow> string list" where
  \<comment> \<open>\<open>s.split()\<close>: the maximal runs of non-whitespace characters\<close>
  "split_ws s = split_ws_from [] s"

fun split_sep :: "char \<Rightarrow> string \<Rightarrow> string list" where
  \<comment> \<open>\<open>s.split(sep)\<close> for a separator of one character, as at every call of the source\<close>
  "split_sep sep [] = [[]]"
| "split_sep sep (c # cs) =
     (if c = sep then [] # split_sep sep cs
      else (case split_sep sep cs of [] \<Rightarrow> [[c]] | x # xs \<Rightarrow> (c # x) # xs))"

fun join :: "string \<Rightarrow> string list \<Rightarrow> string" where
  \<comment> \<open>\<open>sep.join(xs)\<close>\<close>
  "join sep [] = []"
| "join sep [x] = x"
| "join sep (x # y # ys) = x @ sep @ join sep (y # ys)"

definition startswith :: "string \<Rightarrow> string \<Rightarrow> bool" where
  \<comment> \<open>\<open>s.startswith(p)\<close>\<close>
  "startswith s p = (take (length p) s = p)"

definition endswith :: "string \<Rightarrow> string \<Rightarrow> bool" where
  "endswith s p = (length p \<le> length s \<and> drop (length s - length p) s = p)"

definition removesuffix :: "string \<Rightarrow> string \<Rightarrow> string" where
  \<comment> \<open>\<open>s.removesuffix(p)\<close>\<close>
  "removesuffix s p = (if endswith s p then take (length s - length p) s else s)"

function replace :: "string \<Rightarrow> string \<Rightarrow> string \<Rightarrow> string" where
  \<comment> \<open>\<open>s.replace(old, new)\<close>: every occurrence, scanning from the left\<close>
  "replace old new [] = (if old = [] then new else [])"
| "replace old new (c # cs) =
     (if old = [] then new @ concat (map (\<lambda>x. x # new) (c # cs))
      else if startswith (c # cs) old then new @ replace old new (drop (length old) (c # cs))
      else c # replace old new cs)"
  by pat_completeness auto
termination
  by (relation "measure (\<lambda>(old, new, s). length s)") (auto simp: neq_Nil_conv)

fun contains :: "string \<Rightarrow> string \<Rightarrow> bool" where
  \<comment> \<open>\<open>p in s\<close>\<close>
  "contains [] p = (p = [])"
| "contains (c # cs) p = (startswith (c # cs) p \<or> contains cs p)"

definition lower_chr :: "char \<Rightarrow> char" where
  "lower_chr c =
     (let n = (of_char c :: nat)
      in if (65 \<le> n \<and> n \<le> 90) \<or> (192 \<le> n \<and> n \<le> 214) \<or> (216 \<le> n \<and> n \<le> 222)
         then char_of (n + 32) else c)"

definition lower :: "string \<Rightarrow> string" where
  \<comment> \<open>\<open>s.lower()\<close>\<close>
  "lower s = map lower_chr s"

definition path_join :: "string \<Rightarrow> string \<Rightarrow> string" where
  \<comment> \<open>\<open>os.path.join(a, b)\<close>\<close>
  "path_join a b =
     (if startswith b ''/'' then b
      else if a = [] \<or> last a = CHR ''/'' then a @ b
      else a @ ''/'' @ b)"

definition basename :: "string \<Rightarrow> string" where
  \<comment> \<open>\<open>os.path.basename(p)\<close>\<close>
  "basename p = last (split_sep CHR ''/'' p)"

subsection \<open>Decimal numerals\<close>

definition digit_chr :: "nat \<Rightarrow> char" where
  "digit_chr d = char_of (48 + d)"

definition is_digit :: "char \<Rightarrow> bool" where
  "is_digit c = (48 \<le> (of_char c :: nat) \<and> (of_char c :: nat) \<le> 57)"

definition digit_val :: "char \<Rightarrow> nat" where
  "digit_val c = of_char c - 48"

fun str_nat :: "nat \<Rightarrow> string" where
  "str_nat n = (if n < 10 then [digit_chr n] else str_nat (n div 10) @ [digit_chr (n mod 10)])"

declare str_nat.simps [simp del]

definition str_int :: "int \<Rightarrow> string" where
  \<comment> \<open>\<open>str(i)\<close>, also what an f-string field \<open>{i}\<close> prints for an \<open>int\<close>\<close>
  "str_int i = (if i < 0 then CHR ''-'' # str_nat (nat (- i)) else str_nat (nat i))"

fun digits_from :: "nat \<Rightarrow> string \<Rightarrow> nat option" where
  \<comment> \<open>the digits after the first: a single underscore may stand between two digits\<close>
  "digits_from acc [] = Some acc"
| "digits_from acc (c # cs) =
     (if is_digit c then digits_from (acc * 10 + digit_val c) cs
      else if c = CHR ''_'' then
        (case cs of [] \<Rightarrow> None
         | c' # cs' \<Rightarrow> if is_digit c' then digits_from (acc * 10 + digit_val c') cs' else None)
      else None)"

definition nat_literal :: "string \<Rightarrow> nat option" where
  "nat_literal s =
     (case s of [] \<Rightarrow> None
      | c # cs \<Rightarrow> if is_digit c then digits_from (digit_val c) cs else None)"

definition py_int :: "string \<Rightarrow> int option" where
  \<comment> \<open>\<open>int(s)\<close>; \<open>None\<close> is the \<open>ValueError\<close> for an invalid literal\<close>
  "py_int s =
     (case strip s of [] \<Rightarrow> None
      | c # cs \<Rightarrow>
          if c = CHR ''-'' then map_option (\<lambda>n. - int n) (nat_literal cs)
          else if c = CHR ''+'' then map_option int (nat_literal cs)
          else map_option int (nat_literal (c # cs)))"

section \<open>Errors\<close>

text \<open>
  The exceptions the two scripts can raise. \<open>ValueError\<close> carries the message of an explicit
  \<open>raise ValueError(...)\<close>; \<open>UnpackError\<close>, \<open>IntLiteralError\<close>, \<open>FloatLiteralError\<close> and
  \<open>UnicodeDecodeError\<close> are the \<open>ValueError\<close>s that the interpreter raises for a
  failed tuple unpacking, \<open>int(s)\<close>, \<open>float(s)\<close> and \<open>bytes.decode()\<close>.
\<close>

datatype error =
    AssertionError
  | ValueError string
  | UnpackError
  | IntLiteralError
  | FloatLiteralError
  | UnicodeDecodeError
  | IndexError
  | KeyError
  | FileNotFoundError

section \<open>graphs.py\<close>

definition FILES :: "string list" where
  "FILES = [''results_fl_z1.csv'', ''results_cl_z1.csv'', ''results_cl_z2.csv'']"

definition FL_VALUES :: "string list" where
  "FL_VALUES = [''Cost'', ''Time [s]'']"

definition CL_VALUES :: "string list" where
  "CL_VALUES = [''Clusters''] @ FL_VALUES"

definition SOLUTION_COLORS :: "(string \<times> string) list" where
  "SOLUTION_COLORS =
     [(''Mettu-Plaxton'', ''red''),
      (''K-medoids alternate (scikit-learn-extra)'', ''red''),
      (''K-medoids PAM (scikit-learn-extra)'', ''orange''),
      (''K-means++ (scikit-learn)'', ''red''),
      (''Grid hashing'', ''blue''),
      (''Face hashing'', ''green'')]"

definition SOLUTION_MARKER :: "(string \<times> string) list" where
  "SOLUTION_MARKER =
     [(''Mettu-Plaxton'', ''o''),
      (''K-medoids alternate (scikit-learn-extra)'', ''o''),
      (''K-medoids PAM (scikit-learn-extra)'', ''d''),
      (''K-means++ (scikit-learn)'', ''o''),
      (''Grid hashing'', ''^''),
      (''Face hashing'', ''v'')]"

definition PLOT_DIMENSIONS :: "int list" where
  "PLOT_DIMENSIONS = [2, 5, 10]"

definition PLOT_SIZES :: "int list" where
  "PLOT_SIZES = [10000]"

subsection \<open>Classifying a row (lines 87 to 108)\<close>

definition classify :: "string \<Rightarrow> string list \<Rightarrow> error + string" where
  "classify solution args =
     (if length args = 2 then
        (if args ! 0 = ''grid_hashing'' then Inr ''Grid hashing''
         else if args ! 0 = ''face_hashing'' then Inr ''Face hashing''
         else Inl (ValueError (''Unrecognized argument: '' @ args ! 0)))
      else if startswith solution ''mettu_plaxton'' then Inr ''Mettu-Plaxton''
      else if startswith solution ''scikit'' then
        (if solution = ''scikit_z1'' then
           (case args of
              [] \<Rightarrow> Inl IndexError
            | a # _ \<Rightarrow>
                Inr (''K-medoids '' @ (if a = ''alternate'' then ''alternate'' else ''PAM'')
                     @ '' (scikit-learn-extra)''))
         else Inr ''K-means++ (scikit-learn)'')
      else Inl (ValueError ''Unknown solution''))"

subsection \<open>Grouping the rows (lines 78 to 115)\<close>

text \<open>
  A \<open>defaultdict(list)\<close> keeps its keys in the order of their first use: an association
  list. An entry of a bucket is the tuple \<open>(x, solution, *map(float, params))\<close>.
  \<open>float(s)\<close> is a parameter of the model: \<open>None\<close> is its \<open>ValueError\<close>.
\<close>

type_synonym 'f entry = "int \<times> string \<times> 'f list"

type_synonym ('k, 'v) defaultdict = "('k \<times> 'v list) list"

fun dd_append :: "'k \<Rightarrow> 'v \<Rightarrow> ('k, 'v) defaultdict \<Rightarrow> ('k, 'v) defaultdict" where
  \<comment> \<open>\<open>dd[k].append(v)\<close>\<close>
  "dd_append k v [] = [(k, [v])]"
| "dd_append k v ((k', vs) # al) =
     (if k' = k then (k', vs @ [v]) # al else (k', vs) # dd_append k v al)"

definition bucket :: "'k \<Rightarrow> ('k, 'v) defaultdict \<Rightarrow> 'v list" where
  \<comment> \<open>the bucket of a key; empty for a key never used\<close>
  "bucket k dd = (case map_of dd k of None \<Rightarrow> [] | Some vs \<Rightarrow> vs)"

type_synonym 'f groups = "(int, 'f entry) defaultdict \<times> (int, 'f entry) defaultdict"

definition plot_file_line ::
  "(string \<Rightarrow> 'f option) \<Rightarrow> string list \<Rightarrow> 'f groups \<Rightarrow> error + 'f groups" where
  \<comment> \<open>the body of the loop over the rows; the state is \<open>(by_dimension, by_size)\<close>\<close>
  "plot_file_line to_float line st =
     (case line of
        inp # solution # args # params \<Rightarrow>
          (case classify solution (split_ws args) of
             Inl e \<Rightarrow> Inl e
           | Inr label \<Rightarrow>
               if startswith inp ''gen'' then
                 (case split_sep CHR ''_'' (replace ''.'' ''_'' inp) of
                    [_, n, d, _] \<Rightarrow>
                      (case py_int (drop 1 n) of
                         None \<Rightarrow> Inl IntLiteralError
                       | Some n' \<Rightarrow>
                           (case py_int (drop 1 d) of
                              None \<Rightarrow> Inl IntLiteralError
                            | Some d' \<Rightarrow>
                                (case those (map to_float params) of
                                   None \<Rightarrow> Inl FloatLiteralError
                                 | Some vals \<Rightarrow>
                                     Inr (dd_append d' (n', label, vals) (fst st),
                                          dd_append n' (d', label, vals) (snd st)))))
                  | _ \<Rightarrow> Inl UnpackError)
               else Inr st)
      | _ \<Rightarrow> Inl UnpackError)"

fun plot_file_lines ::
  "(string \<Rightarrow> 'f option) \<Rightarrow> string list list \<Rightarrow> 'f groups \<Rightarrow> error + 'f groups" where
  "plot_file_lines to_float [] st = Inr st"
| "plot_file_lines to_float (line # rest) st =
     (case plot_file_line to_float line st of
        Inl e \<Rightarrow> Inl e
      | Inr st' \<Rightarrow> plot_file_lines to_float rest st')"

subsection \<open>Titles and file names of the charts\<close>

definition plot_name :: "string \<Rightarrow> error + string" where
  \<comment> \<open>lines 75 and 76; \<open>filename[-5]\<close> raises \<open>IndexError\<close> on a name shorter than five\<close>
  "plot_name filename =
     (if length filename < 5 then Inl IndexError
      else Inr ((if contains filename ''fl'' then ''Facility Location'' else ''Clustering'')
                @ '' ($$, z='' @ [filename ! (length filename - 5)] @ '')''))"

definition title_d :: "string \<Rightarrow> int \<Rightarrow> string" where
  \<comment> \<open>\<open>plot_name.replace("$$", f"d={d}")\<close>\<close>
  "title_d name d = replace ''$$'' (''d='' @ str_int d) name"

definition title_n :: "string \<Rightarrow> int \<Rightarrow> string" where
  \<comment> \<open>\<open>plot_name.replace("$$", f"n={n}")\<close>\<close>
  "title_n name n = replace ''$$'' (''n='' @ str_int n) name"

definition REPLACE :: "(char \<times> string) list" where
  "REPLACE = [(CHR '' '', ''_''), (CHR ''('', ''''), (CHR '')'', ''''), (CHR '','', ''''),
              (CHR ''='', '''')]"

definition figname :: "string \<Rightarrow> string \<Rightarrow> string" where
  \<comment> \<open>lines 64 to 68\<close>
  "figname title val_name =
     concat (map (\<lambda>l. case map_of REPLACE l of Some r \<Rightarrow> r | None \<Rightarrow> [l])
               (replace '' [s]'' '''' (lower (replace ''('' (val_name @ '' '') title))))
     @ ''.svg''"

text \<open>
  The charts that \<open>plot_file\<close> can draw for the files of \<open>FILES\<close>: one title for each
  dimension of \<open>PLOT_DIMENSIONS\<close> and each size of \<open>PLOT_SIZES\<close>, and for a title the
  metrics of \<open>FL_VALUES\<close> or of \<open>CL_VALUES\<close> (which contains \<open>FL_VALUES\<close>).
\<close>

definition configured_titles :: "string list" where
  "configured_titles =
     concat (map (\<lambda>f. case plot_name f of
                          Inl _ \<Rightarrow> []
                        | Inr name \<Rightarrow> map (title_d name) PLOT_DIMENSIONS
                                      @ map (title_n name) PLOT_SIZES) FILES)"

definition configured_charts :: "(string \<times> string) list" where
  "configured_charts = List.product configured_titles CL_VALUES"

definition plain_chr :: "char \<Rightarrow> bool" where
  \<comment> \<open>a lowercase letter, a digit or an underscore\<close>
  "plain_chr c = ((97 \<le> (of_char c :: nat) \<and> (of_char c :: nat) \<le> 122) \<or> is_digit c
                  \<or> c = CHR ''_'')"

subsection \<open>Drawing the charts\<close>

text \<open>
  Of a chart the model keeps the file it is saved to, its title, the labels of its axes
  and its lines: for each solution its label, marker, colour and points.
\<close>

record 'f series =
  s_label :: string
  s_marker :: string
  s_color :: string
  s_xs :: "int list"
  s_ys :: "'f list"

record 'f figure =
  fig_path :: string
  fig_title :: string
  fig_xlabel :: string
  fig_ylabel :: string
  fig_lines :: "'f series list"

definition IMG_DIR :: string where
  "IMG_DIR = ''img''"

definition solution_series :: "nat \<Rightarrow> string \<times> 'f entry list \<Rightarrow> error + 'f series" where
  \<comment> \<open>lines 48 to 54, for the metric number \<open>val_number\<close>\<close>
  "solution_series val_number item =
     (case item of (sol_name, sol_val) \<Rightarrow>
        if \<exists>v \<in> set sol_val. length (snd (snd v)) \<le> val_number then Inl IndexError
        else (case (map_of SOLUTION_MARKER sol_name, map_of SOLUTION_COLORS sol_name) of
                (Some m, Some c) \<Rightarrow>
                  Inr \<lparr>s_label = sol_name, s_marker = m @ ''-'', s_color = c,
                       s_xs = map fst sol_val,
                       s_ys = map (\<lambda>v. snd (snd v) ! val_number) sol_val\<rparr>
              | _ \<Rightarrow> Inl KeyError))"

fun collect :: "('a \<Rightarrow> error + 'b) \<Rightarrow> 'a list \<Rightarrow> error + 'b list" where
  \<comment> \<open>a loop that stops at the first exception\<close>
  "collect f [] = Inr []"
| "collect f (x # rest) =
     (case f x of
        Inl e \<Rightarrow> Inl e
      | Inr y \<Rightarrow> (case collect f rest of Inl e \<Rightarrow> Inl e | Inr ys \<Rightarrow> Inr (y # ys)))"

definition plot_instance :: "string \<Rightarrow> 'f entry list \<Rightarrow> error + 'f figure list" where
  "plot_instance ttl values =
     (case values of
        [] \<Rightarrow> Inl IndexError
      | first # _ \<Rightarrow>
          (let solutions = fold (\<lambda>val. dd_append (fst (snd val)) val) values [];
               val_names = (if 2 + length (snd (snd first)) = 4 then FL_VALUES else CL_VALUES)
           in collect
                (\<lambda>(val_number, val_name).
                   case collect (solution_series val_number) (rev solutions) of
                     Inl e \<Rightarrow> Inl e
                   | Inr ls \<Rightarrow>
                       Inr \<lparr>fig_path = path_join IMG_DIR (figname ttl val_name), fig_title = ttl,
                            fig_xlabel = (if contains ttl ''d='' then ''Input size (n)''
                                      else ''Dimension (d)''),
                            fig_ylabel = val_name, fig_lines = ls\<rparr>)
                (enumerate 0 val_names)))"

definition plot_groups :: "string \<Rightarrow> 'f groups \<Rightarrow> error + 'f figure list" where
  \<comment> \<open>lines 117 to 123: the charts of the buckets whose key is in the allow-list\<close>
  "plot_groups name st =
     (case collect (\<lambda>(d, d_values). plot_instance (title_d name d) d_values)
             (filter (\<lambda>(d, d_values). d \<in> set PLOT_DIMENSIONS) (fst st)) of
        Inl e \<Rightarrow> Inl e
      | Inr by_d \<Rightarrow>
          (case collect (\<lambda>(n, n_values). plot_instance (title_n name n) n_values)
                  (filter (\<lambda>(n, n_values). n \<in> set PLOT_SIZES) (snd st)) of
             Inl e \<Rightarrow> Inl e
           | Inr by_n \<Rightarrow> Inr (concat by_d @ concat by_n)))"

definition plot_file ::
  "(string \<Rightarrow> 'f option) \<Rightarrow> string \<Rightarrow> string list list \<Rightarrow> error + 'f figure list" where
  \<comment> \<open>\<open>plot_file(filename)\<close>, on the rows that \<open>csv.reader\<close> reads from the file\<close>
  "plot_file to_float filename rows =
     (case plot_name filename of
        Inl e \<Rightarrow> Inl e
      | Inr name \<Rightarrow>
          (case plot_file_lines to_float rows ([], []) of
             Inl e \<Rightarrow> Inl e
           | Inr st \<Rightarrow> plot_groups name st))"

section \<open>test.py\<close>

subsection \<open>The world outside the script\<close>

text \<open>
  The script runs external binaries, reads the clock and reads and writes files. A
  \<open>call\<close> is what \<open>Popen\<close> hands to a binary: its argument vector, the text on its
  standard input and its environment (\<open>None\<close> when \<open>Popen\<close> gets no \<open>env\<close>: the
  environment of the harness is inherited; \<open>Some e\<close> when it gets \<open>env=e\<close>: the
  environment is exactly \<open>e\<close>). An \<open>outcome\<close> is what the binary answers.
\<close>

record call =
  argv :: "string list"
  stdin :: string
  env :: "(string \<times> string) list option"

record outcome =
  stdout :: string
  returncode :: int

datatype 'f field = StrField string | IntField int | FloatField 'f

text \<open>
  The state: the files by path, the calls made so far (oldest first), the number of
  readings of the clock so far, and the rows of the results file, which is opened for
  appending (the text that \<open>csv.writer\<close> makes of a row is not modelled).
\<close>

record 'f world =
  files :: "string \<rightharpoonup> string"
  calls :: "call list"
  ticks :: nat
  results :: "'f field list list"

text \<open>
  What lies outside the two scripts is a parameter: the binaries (\<open>run\<close>, which may
  depend on the whole state), the clock, and the operations on floats, whose values are of
  the type \<open>'f\<close>. \<open>pow_half n\<close> is the real number that the float \<open>n ** 0.5\<close>
  denotes, for the positive sizes of the sweep.
\<close>

record 'f platform =
  run :: "'f world \<Rightarrow> call \<Rightarrow> outcome"
  clock :: "nat \<Rightarrow> 'f"
  fsub :: "'f \<Rightarrow> 'f \<Rightarrow> 'f"
  float :: "string \<Rightarrow> 'f option"
  fmt4 :: "'f \<Rightarrow> string"
  decode :: "string \<Rightarrow> string option"
  csv_reader :: "string \<Rightarrow> string list list"
  pow_half :: "int \<Rightarrow> real"

type_synonym ('f, 'a) action = "'f world \<Rightarrow> (error + 'a) \<times> 'f world"

definition and_then :: "('f, 'a) action \<Rightarrow> ('a \<Rightarrow> ('f, 'b) action) \<Rightarrow> ('f, 'b) action" where
  \<comment> \<open>one statement after another: an exception of the first ends both\<close>
  "and_then m f w = (case m w of (Inl e, w') \<Rightarrow> (Inl e, w') | (Inr a, w') \<Rightarrow> f a w')"

fun for_loop :: "('x \<Rightarrow> ('f, unit) action) \<Rightarrow> 'x list \<Rightarrow> ('f, unit) action" where
  "for_loop body [] w = (Inr (), w)"
| "for_loop body (x # xs) w =
     (case body x w of (Inl e, w') \<Rightarrow> (Inl e, w') | (Inr u, w') \<Rightarrow> for_loop body xs w')"

definition NL :: char where
  "NL = CHR 0x0A"

definition CR :: char where
  "CR = CHR 0x0D"

fun readlines_from :: "string \<Rightarrow> string \<Rightarrow> string list" where
  "readlines_from cur [] = (if cur = [] then [] else [cur])"
| "readlines_from cur [c] =
     (if c = NL \<or> c = CR then [cur @ [NL]] else [cur @ [c]])"
| "readlines_from cur (c # c' # cs) =
     (if c = NL then (cur @ [NL]) # readlines_from [] (c' # cs)
      else if c = CR then
        (if c' = NL then (cur @ [NL]) # readlines_from [] cs
         else (cur @ [NL]) # readlines_from [] (c' # cs))
      else readlines_from (cur @ [c]) (c' # cs))"

definition readlines :: "string \<Rightarrow> string list" where
  \<comment> \<open>\<open>f.readlines()\<close> of a file opened as text: a line ends at \<open>\n\<close>, \<open>\r\<close> or
      \<open>\r\n\<close>, and keeps its end as \<open>\n\<close>\<close>
  "readlines s = readlines_from [] s"

definition read_text :: "string \<Rightarrow> string" where
  \<comment> \<open>\<open>f.read()\<close> of a file opened as text\<close>
  "read_text s = concat (readlines s)"

definition int_of_float :: "real \<Rightarrow> int" where
  \<comment> \<open>\<open>int(x)\<close> of a finite float: towards zero\<close>
  "int_of_float x = (if 0 \<le> x then \<lfloor>x\<rfloor> else \<lceil>x\<rceil>)"

subsection \<open>The configuration (lines 13 to 37)\<close>

text \<open>
  \<open>argparse\<close> lets only \<open>fl\<close> and \<open>cl\<close> through as the target, and only 1 and 2 as
  \<open>z\<close>; the definitions take any integer \<open>Z\<close>.
\<close>

datatype target = FL | CL

definition BUILD_DIR :: string where "BUILD_DIR = ''build''"
definition DATA_DIR :: string where "DATA_DIR = ''data''"
definition GEN_DATA_DIR :: string where "GEN_DATA_DIR = ''gen''"

definition GENERATOR :: "int \<Rightarrow> string" where
  "GENERATOR Z = ''data_gen_z'' @ str_int Z"

definition FACILITY_JUDGE :: "int \<Rightarrow> string" where
  "FACILITY_JUDGE Z = ''facility_set_cost_z'' @ str_int Z"

definition FACILITY_SOLUTIONS :: "int \<Rightarrow> string list" where
  "FACILITY_SOLUTIONS Z = [''mettu_plaxton_z'' @ str_int Z] @ replicate 2 (''facility_set_z'' @ str_int Z)"

definition FACILITY_SOLUTION_ARGS :: "string list list" where
  "FACILITY_SOLUTION_ARGS =
     [[],
      [''grid_hashing'', ''60042651f648e052''],
      [''face_hashing'', ''60042651f648e052'']]"

definition FACILITY_COST :: int where
  "FACILITY_COST = 1"

definition CLUSTERING_JUDGE :: "int \<Rightarrow> string" where
  "CLUSTERING_JUDGE Z = ''clustering_cost_z'' @ str_int Z"

definition CLUSTERING_SOLUTIONS :: "int \<Rightarrow> string list" where
  "CLUSTERING_SOLUTIONS Z =
     replicate (if Z = 1 then 2 else 1) (''scikit_z'' @ str_int Z)
     @ replicate 2 (''clustering_z'' @ str_int Z)"

definition CLUSTERING_SOLUTION_ARGS :: "int \<Rightarrow> string list list" where
  "CLUSTERING_SOLUTION_ARGS Z =
     (if Z = 1 then [[''alternate''], [''pam'']] else [['''']])
     @ [[''grid_hashing'', ''60042651f648e052''],
        [''face_hashing'', ''60042651f648e052'']]"

definition SIZES :: "int list" where
  "SIZES = [100, 500, 1000, 5000, 10000, 50000, 100000, 500000, 1000000]"

definition DIMENSIONS :: "int list" where
  "DIMENSIONS = [2, 5, 10]"

subsection \<open>Generating the instances\<close>

definition gen :: "'f platform \<Rightarrow> int \<Rightarrow> int \<Rightarrow> int \<Rightarrow> int \<Rightarrow> ('f, string) action" where
  "gen P Z sz dimension k_or_cost w =
     (let filepath = path_join (path_join DATA_DIR GEN_DATA_DIR)
                       (''gen_n'' @ str_int sz @ ''_d'' @ str_int dimension @ ''.in'');
          c = \<lparr>argv = [path_join BUILD_DIR (GENERATOR Z)],
               stdin = str_int sz @ '' '' @ str_int dimension @ '' '' @ str_int k_or_cost @ [NL],
               env = None\<rparr>;
          w1 = w\<lparr>files := (files w)(filepath \<mapsto> [])\<rparr>;
          out = run P w1 c;
          w2 = w1\<lparr>files := (files w1)(filepath \<mapsto> stdout out), calls := calls w1 @ [c]\<rparr>
      in if returncode out = 0 then (Inr filepath, w2) else (Inl AssertionError, w2))"

definition gen_iris :: "('f, string) action" where
  "gen_iris w =
     (case files w (path_join ''iris'' ''iris.data'') of
        None \<Rightarrow> (Inl FileNotFoundError, w)
      | Some raw \<Rightarrow>
          (let plants = map (split_sep CHR '','') (split_sep NL (strip (read_text raw)));
               inp = path_join (path_join DATA_DIR ''iris'') ''iris.in'';
               w1 = w\<lparr>files := (files w)(inp \<mapsto> [])\<rparr>
           in case plants of
                [] \<Rightarrow> (Inl IndexError, w1)
              | first # _ \<Rightarrow>
                  (Inr inp,
                   w1\<lparr>files := (files w1)(inp \<mapsto>
                        str_int (int (length plants)) @ '' '' @ str_int (int (length first) - 1)
                          @ '' 3'' @ [NL]
                        @ concat (map (\<lambda>plant. join '' '' (butlast plant) @ [NL]) plants))\<rparr>)))"

definition gen_imdb :: "'f platform \<Rightarrow> ('f, string) action" where
  "gen_imdb P w =
     (case files w (path_join ''maas_imdb'' ''maas_imdb.csv'') of
        None \<Rightarrow> (Inl FileNotFoundError, w)
      | Some raw \<Rightarrow>
          (let words = drop 1 (csv_reader P raw);
               inp = path_join (path_join DATA_DIR ''maas_imdb'') ''maas_imdb.in'';
               w1 = w\<lparr>files := (files w)(inp \<mapsto> [])\<rparr>
           in case words of
                [] \<Rightarrow> (Inl IndexError, w1)
              | first # _ \<Rightarrow>
                  (Inr inp,
                   w1\<lparr>files := (files w1)(inp \<mapsto>
                        str_int (int (length words)) @ '' '' @ str_int (int (length first) - 2)
                          @ '' 200'' @ [NL]
                        @ concat (map (\<lambda>plant. join '' '' (drop 2 plant) @ [NL]) words))\<rparr>)))"

subsection \<open>Solving and judging\<close>

definition output_path_of :: "string \<Rightarrow> string \<Rightarrow> string list \<Rightarrow> string" where
  \<comment> \<open>line 84\<close>
  "output_path_of input_path solution args =
     removesuffix input_path ''.in'' @ ''.'' @ solution @ ''.'' @ join ''.'' args @ ''.out''"

definition solve ::
  "'f platform \<Rightarrow> string \<Rightarrow> string \<Rightarrow> string list \<Rightarrow> ('f, string \<times> 'f) action" where
  "solve P input_path solution args w =
     (let output_path = output_path_of input_path solution args;
          start_time = clock P (ticks w);
          w1 = w\<lparr>ticks := Suc (ticks w)\<rparr>
      in case files w1 input_path of
           None \<Rightarrow> (Inl FileNotFoundError, w1)
         | Some content \<Rightarrow>
             (let c = \<lparr>argv = path_join BUILD_DIR solution # args, stdin = content, env = None\<rparr>;
                  w2 = w1\<lparr>files := (files w1)(output_path \<mapsto> [])\<rparr>;
                  out = run P w2 c;
                  w3 = w2\<lparr>files := (files w2)(output_path \<mapsto> stdout out),
                          calls := calls w2 @ [c]\<rparr>;
                  total_time = fsub P (clock P (ticks w3)) start_time;
                  w4 = w3\<lparr>ticks := Suc (ticks w3)\<rparr>
              in if returncode out = 0 then (Inr (output_path, total_time), w4)
                 else (Inl AssertionError, w4)))"

definition judge :: "'f platform \<Rightarrow> string \<Rightarrow> string \<Rightarrow> string \<Rightarrow> ('f, 'f) action" where
  "judge P judge_name input_path output_path w =
     (case files w input_path of
        None \<Rightarrow> (Inl FileNotFoundError, w)
      | Some content \<Rightarrow>
          (let c = \<lparr>argv = [path_join BUILD_DIR judge_name], stdin = content,
                    env = Some [(''SOLUTION'', output_path)]\<rparr>;
               out = run P w c;
               w1 = w\<lparr>calls := calls w @ [c]\<rparr>
           in case decode P (stdout out) of
                None \<Rightarrow> (Inl UnicodeDecodeError, w1)
              | Some text \<Rightarrow>
                  (case float P (strip text) of
                     None \<Rightarrow> (Inl FloatLiteralError, w1)
                   | Some score \<Rightarrow> (Inr score, w1))))"

subsection \<open>Recording the results\<close>

definition writerow :: "'f field list \<Rightarrow> ('f, unit) action" where
  \<comment> \<open>\<open>results.writerow(row)\<close>\<close>
  "writerow row w = (Inr (), w\<lparr>results := results w @ [row]\<rparr>)"

definition facility_location_run ::
  "'f platform \<Rightarrow> int \<Rightarrow> string \<Rightarrow> string \<times> string list \<Rightarrow> ('f, unit) action" where
  \<comment> \<open>the body of the loop of \<open>test_facility_location\<close>\<close>
  "facility_location_run P Z inp sa =
     and_then (solve P inp (fst sa) (snd sa)) (\<lambda>(out, sol_time).
     and_then (judge P (FACILITY_JUDGE Z) inp out) (\<lambda>score.
       writerow [StrField (basename inp), StrField (fst sa), StrField (join '' '' (snd sa)),
                 StrField (fmt4 P score), FloatField sol_time]))"

definition test_facility_location :: "'f platform \<Rightarrow> int \<Rightarrow> string \<Rightarrow> ('f, unit) action" where
  "test_facility_location P Z inp =
     for_loop (facility_location_run P Z inp) (zip (FACILITY_SOLUTIONS Z) FACILITY_SOLUTION_ARGS)"

definition count_centers :: "string \<Rightarrow> ('f, int) action" where
  \<comment> \<open>lines 123 and 124\<close>
  "count_centers out w =
     (case files w out of
        None \<Rightarrow> (Inl FileNotFoundError, w)
      | Some content \<Rightarrow>
          (Inr (int (length (filter (\<lambda>r. strip r \<noteq> []) (readlines content)))), w))"

definition clustering_run ::
  "'f platform \<Rightarrow> int \<Rightarrow> string \<Rightarrow> string \<times> string list \<Rightarrow> ('f, unit) action" where
  \<comment> \<open>the body of the loop of \<open>test_clustering\<close>\<close>
  "clustering_run P Z inp sa =
     and_then (solve P inp (fst sa) (snd sa)) (\<lambda>(out, sol_time).
     and_then (count_centers out) (\<lambda>centers.
     and_then (judge P (CLUSTERING_JUDGE Z) inp out) (\<lambda>score.
       writerow [StrField (basename inp), StrField (fst sa), StrField (join '' '' (snd sa)),
                 IntField centers, StrField (fmt4 P score), FloatField sol_time])))"

definition test_clustering :: "'f platform \<Rightarrow> int \<Rightarrow> string \<Rightarrow> ('f, unit) action" where
  "test_clustering P Z inp =
     for_loop (clustering_run P Z inp)
       (zip (CLUSTERING_SOLUTIONS Z) (CLUSTERING_SOLUTION_ARGS Z))"

definition test :: "'f platform \<Rightarrow> int \<Rightarrow> target \<Rightarrow> string \<Rightarrow> ('f, unit) action" where
  "test P Z tgt inp =
     (case tgt of FL \<Rightarrow> test_facility_location P Z inp | CL \<Rightarrow> test_clustering P Z inp)"

subsection \<open>The sweep (lines 137 to 154)\<close>

definition sweep_parameter :: "'f platform \<Rightarrow> target \<Rightarrow> int \<Rightarrow> int" where
  \<comment> \<open>the third argument of \<open>gen\<close>: \<open>FACILITY_COST\<close> or \<open>int(size**0.5)\<close>\<close>
  "sweep_parameter P tgt sz =
     (case tgt of FL \<Rightarrow> FACILITY_COST | CL \<Rightarrow> int_of_float (pow_half P sz))"

definition sweep_run :: "'f platform \<Rightarrow> int \<Rightarrow> target \<Rightarrow> int \<times> int \<Rightarrow> ('f, unit) action" where
  \<comment> \<open>the body of the two nested loops, at one size and one dimension\<close>
  "sweep_run P Z tgt sd =
     and_then (gen P Z (fst sd) (snd sd) (sweep_parameter P tgt (fst sd))) (test P Z tgt)"

definition main :: "'f platform \<Rightarrow> int \<Rightarrow> target \<Rightarrow> ('f, unit) action" where
  "main P Z tgt =
     and_then (case tgt of CL \<Rightarrow> and_then gen_iris (test P Z tgt) | FL \<Rightarrow> (\<lambda>w. (Inr (), w)))
       (\<lambda>_. and_then (for_loop (sweep_run P Z tgt) (List.product SIZES DIMENSIONS))
       (\<lambda>_. case tgt of CL \<Rightarrow> and_then (gen_imdb P) (test P Z tgt) | FL \<Rightarrow> (\<lambda>w. (Inr (), w))))"

subsection \<open>A small platform\<close>

text \<open>
  A platform on which the floats are natural numbers: every binary prints \<open>7\<close> and
  exits with code 0, the clock counts its readings, \<open>float\<close> reads a decimal numeral.
\<close>

definition toy :: "nat platform" where
  "toy = \<lparr>run = (\<lambda>w c. \<lparr>stdout = ''7'' @ [NL], returncode = 0\<rparr>),
          clock = (\<lambda>k. k),
          fsub = (\<lambda>a b. a - b),
          float = nat_literal,
          fmt4 = (\<lambda>x. str_nat x @ ''.0000''),
          decode = Some,
          csv_reader = (\<lambda>s. map (split_sep CHR '','') (split_sep NL s)),
          pow_half = (\<lambda>n. sqrt (real_of_int n))\<rparr>"

definition toy_failing :: "nat platform" where
  \<comment> \<open>as \<open>toy\<close>, but every binary exits with code 1\<close>
  "toy_failing = toy\<lparr>run := (\<lambda>w c. \<lparr>stdout = ''7'' @ [NL], returncode = 1\<rparr>)\<rparr>"

definition toy_world :: "nat world" where
  \<comment> \<open>one instance file, no call made, no row recorded\<close>
  "toy_world = \<lparr>files = [''data/gen/gen_n100_d2.in'' \<mapsto> ''2 2 1'' @ [NL] @ ''0 0'' @ [NL] @ ''1 1'' @ [NL]],
                calls = [], ticks = 0, results = []\<rparr>"

definition datasets_world :: "nat world" where
  \<comment> \<open>the two static datasets, two data rows each\<close>
  "datasets_world =
     \<lparr>files = [''iris/iris.data'' \<mapsto> ''5.1,3.5,setosa'' @ [NL] @ ''4.9,3.0,virginica'' @ [NL],
               ''maas_imdb/maas_imdb.csv'' \<mapsto>
                 ''id,label,good,bad'' @ [NL] @ ''1,pos,2,0'' @ [NL] @ ''2,neg,0,3''],
      calls = [], ticks = 0, results = []\<rparr>"

definition header_only_world :: "nat world" where
  \<comment> \<open>a word-frequency file that has its header row and no data row\<close>
  "header_only_world =
     \<lparr>files = [''maas_imdb/maas_imdb.csv'' \<mapsto> ''id,label,good,bad''],
      calls = [], ticks = 0, results = []\<rparr>"

section \<open>Row classification\<close>

text \<open>
  C3. A row whose third field splits into exactly two tokens, the first of them neither
  \<open>grid_hashing\<close> nor \<open>face_hashing\<close>, makes the loop body raise
  \<open>ValueError("Unrecognized argument: <token>")\<close>: the row gets no label and enters no
  bucket.
\<close>

theorem unrecognized_argument_raises:
  assumes "split_ws args = [a, b]"
    and "a \<noteq> ''grid_hashing''" and "a \<noteq> ''face_hashing''"
  shows "classify solution (split_ws args) = Inl (ValueError (''Unrecognized argument: '' @ a))
       \<and> plot_file_line to_float (inp # solution # args # params) st
           = Inl (ValueError (''Unrecognized argument: '' @ a))"
  using assms by (simp add: classify_def plot_file_line_def)

theorem unrecognized_argument_raises_witness:
  "classify ''facility_set_z1'' (split_ws ''cube_hashing 60042651f648e052'')
     = Inl (ValueError ''Unrecognized argument: cube_hashing'')
   \<and> plot_file_line (\<lambda>s. Some (0::nat))
        [''gen_n100_d2.in'', ''facility_set_z1'', ''cube_hashing 60042651f648e052'', ''1.0'', ''2.0'']
        ([], [])
     = Inl (ValueError ''Unrecognized argument: cube_hashing'')"
proof -
  have s: "split_ws ''cube_hashing 60042651f648e052'' = [''cube_hashing'', ''60042651f648e052'']"
    by (simp add: split_ws_def is_space_def)
  show ?thesis
    using unrecognized_argument_raises [OF s, of "''facility_set_z1''" "\<lambda>s. Some (0::nat)"
        "''gen_n100_d2.in''" "[''1.0'', ''2.0'']" "([], [])"]
    by simp
qed

section \<open>Sequencing\<close>

lemma and_then_Inr:
  "m w = (Inr a, w') \<Longrightarrow> and_then m f w = f a w'"
  by (simp add: and_then_def)

lemma and_then_Inl:
  "m w = (Inl e, w') \<Longrightarrow> and_then m f w = (Inl e, w')"
  by (simp add: and_then_def)

lemma and_then_success:
  assumes "fst (and_then m f w) = Inr b"
  obtains a where "fst (m w) = Inr a" and "and_then m f w = f a (snd (m w))"
  using assms by (cases "m w") (auto simp: and_then_def split: sum.splits)

lemma for_loop_success:
  assumes "fst (for_loop body (x # rest) w) = Inr ()"
  shows "fst (body x w) = Inr ()"
    and "for_loop body (x # rest) w = for_loop body rest (snd (body x w))"
  using assms by (cases "body x w"; auto split: sum.splits)+

section \<open>What solving and judging leave unchanged\<close>

lemma solve_results: "results (snd (solve P i s a w)) = results w"
  by (simp add: solve_def Let_def split: option.splits)

lemma judge_results: "results (snd (judge P j i out w)) = results w"
  by (simp add: judge_def Let_def split: option.splits)

lemma judge_files: "files (snd (judge P j i out w)) = files w"
  by (simp add: judge_def Let_def split: option.splits)

lemma count_centers_world: "snd (count_centers out w) = w"
  by (simp add: count_centers_def split: option.splits)

lemma writerow_simps:
  "fst (writerow row w) = Inr ()"
  "results (snd (writerow row w)) = results w @ [row]"
  "files (snd (writerow row w)) = files w"
  by (simp_all add: writerow_def)

lemma solve_success:
  assumes "fst (solve P i s a w) = Inr (out, t)"
  shows "out = output_path_of i s a"
    and "files (snd (solve P i s a w)) (output_path_of i s a) \<noteq> None"
  using assms by (auto simp: solve_def Let_def split: option.splits if_splits)

lemma solve_files_grow:
  "files w p \<noteq> None \<Longrightarrow> files (snd (solve P i s a w)) p \<noteq> None"
  by (simp add: solve_def Let_def split: option.splits)

lemma count_centers_success:
  assumes "fst (count_centers out w) = Inr centers"
  shows "\<exists>content. files w out = Some content
           \<and> centers = int (length (filter (\<lambda>r. strip r \<noteq> []) (readlines content)))"
  using assms by (auto simp: count_centers_def split: option.splits)

lemma facility_location_run_success:
  assumes "fst (facility_location_run P Z inp (solution, args) w) = Inr ()"
  shows "\<exists>score t.
           results (snd (facility_location_run P Z inp (solution, args) w))
             = results w @ [[StrField (basename inp), StrField solution,
                             StrField (join '' '' args), StrField (fmt4 P score), FloatField t]]
         \<and> files (snd (facility_location_run P Z inp (solution, args) w))
             (output_path_of inp solution args) \<noteq> None"
proof -
  let ?s = "solve P inp solution args w"
  from assms obtain ot where s: "fst ?s = Inr ot"
    and 1: "facility_location_run P Z inp (solution, args) w
              = (case ot of (out, sol_time) \<Rightarrow>
                   and_then (judge P (FACILITY_JUDGE Z) inp out) (\<lambda>score.
                     writerow [StrField (basename inp), StrField solution,
                               StrField (join '' '' args), StrField (fmt4 P score),
                               FloatField sol_time])) (snd ?s)"
    unfolding facility_location_run_def fst_conv snd_conv by (rule and_then_success)
  obtain out t where ot: "ot = (out, t)" by (cases ot)
  have out: "out = output_path_of inp solution args"
    using s ot by (simp add: solve_success(1))
  let ?j = "judge P (FACILITY_JUDGE Z) inp out (snd ?s)"
  from assms 1 ot obtain score where j: "fst ?j = Inr score"
    and 2: "facility_location_run P Z inp (solution, args) w
              = writerow [StrField (basename inp), StrField solution,
                          StrField (join '' '' args), StrField (fmt4 P score), FloatField t]
                  (snd ?j)"
    by (auto elim: and_then_success)
  have "files (snd ?s) (output_path_of inp solution args) \<noteq> None"
    using s ot solve_success(2) by metis
  then show ?thesis
    using 2 by (auto simp: writerow_simps judge_results judge_files solve_results)
qed

lemma clustering_run_success:
  assumes "fst (clustering_run P Z inp (solution, args) w) = Inr ()"
  shows "\<exists>content score t.
           files (snd (clustering_run P Z inp (solution, args) w))
             (output_path_of inp solution args) = Some content
         \<and> results (snd (clustering_run P Z inp (solution, args) w))
             = results w @ [[StrField (basename inp), StrField solution,
                             StrField (join '' '' args),
                             IntField (int (length (filter (\<lambda>r. strip r \<noteq> [])
                                                      (readlines content)))),
                             StrField (fmt4 P score), FloatField t]]"
proof -
  let ?s = "solve P inp solution args w"
  from assms obtain ot where s: "fst ?s = Inr ot"
    and 1: "clustering_run P Z inp (solution, args) w
              = (case ot of (out, sol_time) \<Rightarrow>
                   and_then (count_centers out) (\<lambda>centers.
                   and_then (judge P (CLUSTERING_JUDGE Z) inp out) (\<lambda>score.
                     writerow [StrField (basename inp), StrField solution,
                               StrField (join '' '' args), IntField centers,
                               StrField (fmt4 P score), FloatField sol_time]))) (snd ?s)"
    unfolding clustering_run_def fst_conv snd_conv by (rule and_then_success)
  obtain out t where ot: "ot = (out, t)" by (cases ot)
  have out: "out = output_path_of inp solution args"
    using s ot by (simp add: solve_success(1))
  from assms 1 ot obtain centers where c: "fst (count_centers out (snd ?s)) = Inr centers"
    and 2: "clustering_run P Z inp (solution, args) w
              = and_then (judge P (CLUSTERING_JUDGE Z) inp out) (\<lambda>score.
                  writerow [StrField (basename inp), StrField solution,
                            StrField (join '' '' args), IntField centers,
                            StrField (fmt4 P score), FloatField t]) (snd ?s)"
    by (auto elim: and_then_success simp: count_centers_world)
  from count_centers_success [OF c] obtain content
    where content: "files (snd ?s) out = Some content"
      and centers: "centers = int (length (filter (\<lambda>r. strip r \<noteq> []) (readlines content)))"
    by blast
  let ?j = "judge P (CLUSTERING_JUDGE Z) inp out (snd ?s)"
  from assms 2 obtain score where j: "fst ?j = Inr score"
    and 3: "clustering_run P Z inp (solution, args) w
              = writerow [StrField (basename inp), StrField solution,
                          StrField (join '' '' args), IntField centers,
                          StrField (fmt4 P score), FloatField t] (snd ?j)"
    by (auto elim: and_then_success)
  show ?thesis
    using 3 content centers out
    by (auto simp: writerow_simps judge_results judge_files solve_results)
qed

lemma for_loop_rows:
  assumes "\<And>x w. fst (body x w) = Inr () \<Longrightarrow>
             length (results (snd (body x w))) = Suc (length (results w))"
    and "fst (for_loop body items w) = Inr ()"
  shows "length (results (snd (for_loop body items w))) = length (results w) + length items"
  using assms(2)
proof (induction items arbitrary: w)
  case Nil
  then show ?case by simp
next
  case (Cons x rest)
  from for_loop_success [OF Cons.prems]
  have b: "fst (body x w) = Inr ()"
    and e: "for_loop body (x # rest) w = for_loop body rest (snd (body x w))" by auto
  from Cons.prems e have "fst (for_loop body rest (snd (body x w))) = Inr ()" by simp
  from Cons.IH [OF this] assms(1) [OF b] e show ?case by simp
qed

section \<open>Evaluating on the small platform\<close>

lemmas chr_eval = char_of_def bit_Suc_0_iff

lemma toy_simps:
  "run toy w c = \<lparr>stdout = ''7'' @ [NL], returncode = 0\<rparr>"
  "clock toy k = k"
  "fsub toy a b = a - b"
  "float toy = nat_literal"
  "fmt4 toy x = str_nat x @ ''.0000''"
  "decode toy = Some"
  "csv_reader toy s = map (split_sep CHR '','') (split_sep NL s)"
  "pow_half toy n = sqrt (real_of_int n)"
  by (simp_all add: toy_def)

lemma toy_failing_simps:
  "run toy_failing w c = \<lparr>stdout = ''7'' @ [NL], returncode = 1\<rparr>"
  "float toy_failing = nat_literal"
  "decode toy_failing = Some"
  by (simp_all add: toy_failing_def toy_def)

lemmas toy_eval =
  toy_simps toy_failing_simps toy_world_def NL_def CR_def and_then_def writerow_def Let_def str_nat.simps
  solve_def judge_def count_centers_def output_path_of_def removesuffix_def endswith_def
  path_join_def startswith_def BUILD_DIR_def basename_def strip_def is_space_def
  nat_literal_def is_digit_def digit_val_def readlines_def

lemma facility_combinations:
  "zip (FACILITY_SOLUTIONS Z) FACILITY_SOLUTION_ARGS =
     [(''mettu_plaxton_z'' @ str_int Z, []),
      (''facility_set_z'' @ str_int Z, [''grid_hashing'', ''60042651f648e052'']),
      (''facility_set_z'' @ str_int Z, [''face_hashing'', ''60042651f648e052''])]"
  by (simp add: FACILITY_SOLUTIONS_def FACILITY_SOLUTION_ARGS_def numeral_2_eq_2)

lemma clustering_combinations:
  "zip (CLUSTERING_SOLUTIONS Z) (CLUSTERING_SOLUTION_ARGS Z) =
     (if Z = 1 then [(''scikit_z'' @ str_int Z, [''alternate'']), (''scikit_z'' @ str_int Z, [''pam''])]
      else [(''scikit_z'' @ str_int Z, [''''])])
     @ [(''clustering_z'' @ str_int Z, [''grid_hashing'', ''60042651f648e052'']),
        (''clustering_z'' @ str_int Z, [''face_hashing'', ''60042651f648e052''])]"
  by (simp add: CLUSTERING_SOLUTIONS_def CLUSTERING_SOLUTION_ARGS_def numeral_2_eq_2)

lemma str_int_1: "str_int 1 = ''1''"
  by (simp add: str_int_def str_nat.simps digit_chr_def chr_eval)

lemma toy_facility_location:
  "fst (test_facility_location toy 1 ''data/gen/gen_n100_d2.in'' toy_world) = Inr ()"
  "results (snd (test_facility_location toy 1 ''data/gen/gen_n100_d2.in'' toy_world)) =
     [[StrField ''gen_n100_d2.in'', StrField ''mettu_plaxton_z1'', StrField '''',
       StrField ''7.0000'', FloatField 1],
      [StrField ''gen_n100_d2.in'', StrField ''facility_set_z1'',
       StrField ''grid_hashing 60042651f648e052'', StrField ''7.0000'', FloatField 1],
      [StrField ''gen_n100_d2.in'', StrField ''facility_set_z1'',
       StrField ''face_hashing 60042651f648e052'', StrField ''7.0000'', FloatField 1]]"
  unfolding test_facility_location_def facility_combinations str_int_1
  by (simp_all add: facility_location_run_def FACILITY_JUDGE_def toy_eval
      digit_chr_def chr_eval)

lemma toy_clustering:
  "fst (test_clustering toy 1 ''data/gen/gen_n100_d2.in'' toy_world) = Inr ()"
  "results (snd (test_clustering toy 1 ''data/gen/gen_n100_d2.in'' toy_world)) =
     [[StrField ''gen_n100_d2.in'', StrField ''scikit_z1'', StrField ''alternate'',
       IntField 1, StrField ''7.0000'', FloatField 1],
      [StrField ''gen_n100_d2.in'', StrField ''scikit_z1'', StrField ''pam'',
       IntField 1, StrField ''7.0000'', FloatField 1],
      [StrField ''gen_n100_d2.in'', StrField ''clustering_z1'',
       StrField ''grid_hashing 60042651f648e052'', IntField 1, StrField ''7.0000'', FloatField 1],
      [StrField ''gen_n100_d2.in'', StrField ''clustering_z1'',
       StrField ''face_hashing 60042651f648e052'', IntField 1, StrField ''7.0000'', FloatField 1]]"
  unfolding test_clustering_def clustering_combinations str_int_1
  by (simp_all add: clustering_run_def CLUSTERING_JUDGE_def toy_eval
      digit_chr_def chr_eval)

section \<open>The rows of the results file\<close>

text \<open>
  C1, as the code has it. Every completed combination of instance, solver and arguments
  appends exactly one row. The row of the facility-location target has 5 fields
  (instance, solver, arguments, score, time); the row of the clustering target has 6: the
  same five and, in fourth place, the number of lines of that run's output file that hold
  something else than whitespace. A completed run of \<open>test_facility_location\<close> or
  \<open>test_clustering\<close> appends one row for each configured solver.
\<close>

theorem result_row_shape:
  "(fst (facility_location_run P Z inp (solution, args) w) = Inr () \<longrightarrow>
      (\<exists>row. results (snd (facility_location_run P Z inp (solution, args) w)) = results w @ [row]
         \<and> length row = 5))
   \<and> (fst (clustering_run P Z inp (solution, args) w) = Inr () \<longrightarrow>
      (\<exists>row content.
         results (snd (clustering_run P Z inp (solution, args) w)) = results w @ [row]
         \<and> length row = 6
         \<and> files (snd (clustering_run P Z inp (solution, args) w))
              (output_path_of inp solution args) = Some content
         \<and> row ! 3 = IntField (int (length (filter (\<lambda>r. strip r \<noteq> []) (readlines content))))))
   \<and> (fst (test_facility_location P Z inp w) = Inr () \<longrightarrow>
        length (results (snd (test_facility_location P Z inp w)))
          = length (results w) + length (FACILITY_SOLUTIONS Z))
   \<and> (fst (test_clustering P Z inp w) = Inr () \<longrightarrow>
        length (results (snd (test_clustering P Z inp w)))
          = length (results w) + length (CLUSTERING_SOLUTIONS Z))"
proof (intro conjI impI)
  assume "fst (facility_location_run P Z inp (solution, args) w) = Inr ()"
  from facility_location_run_success [OF this]
  show "\<exists>row. results (snd (facility_location_run P Z inp (solution, args) w)) = results w @ [row]
          \<and> length row = 5"
    by auto
next
  assume "fst (clustering_run P Z inp (solution, args) w) = Inr ()"
  from clustering_run_success [OF this]
  obtain content score t where
    "files (snd (clustering_run P Z inp (solution, args) w)) (output_path_of inp solution args)
       = Some content"
    "results (snd (clustering_run P Z inp (solution, args) w))
       = results w @ [[StrField (basename inp), StrField solution, StrField (join '' '' args),
                       IntField (int (length (filter (\<lambda>r. strip r \<noteq> []) (readlines content)))),
                       StrField (fmt4 P score), FloatField t]]"
    by blast
  then show "\<exists>row content.
         results (snd (clustering_run P Z inp (solution, args) w)) = results w @ [row]
         \<and> length row = 6
         \<and> files (snd (clustering_run P Z inp (solution, args) w))
              (output_path_of inp solution args) = Some content
         \<and> row ! 3 = IntField (int (length (filter (\<lambda>r. strip r \<noteq> []) (readlines content))))"
    by (simp add: numeral_3_eq_3)
next
  assume a: "fst (test_facility_location P Z inp w) = Inr ()"
  have "length (results (snd (for_loop (facility_location_run P Z inp)
                 (zip (FACILITY_SOLUTIONS Z) FACILITY_SOLUTION_ARGS) w)))
          = length (results w) + length (zip (FACILITY_SOLUTIONS Z) FACILITY_SOLUTION_ARGS)"
  proof (rule for_loop_rows)
    fix x :: "string \<times> string list" and v :: "'a world"
    assume "fst (facility_location_run P Z inp x v) = Inr ()"
    then show "length (results (snd (facility_location_run P Z inp x v))) = Suc (length (results v))"
      using facility_location_run_success [of P Z inp "fst x" "snd x" v] by auto
  next
    show "fst (for_loop (facility_location_run P Z inp)
                (zip (FACILITY_SOLUTIONS Z) FACILITY_SOLUTION_ARGS) w) = Inr ()"
      using a by (simp add: test_facility_location_def)
  qed
  then show "length (results (snd (test_facility_location P Z inp w)))
          = length (results w) + length (FACILITY_SOLUTIONS Z)"
    by (simp add: test_facility_location_def FACILITY_SOLUTIONS_def FACILITY_SOLUTION_ARGS_def)
next
  assume a: "fst (test_clustering P Z inp w) = Inr ()"
  have "length (results (snd (for_loop (clustering_run P Z inp)
                 (zip (CLUSTERING_SOLUTIONS Z) (CLUSTERING_SOLUTION_ARGS Z)) w)))
          = length (results w) + length (zip (CLUSTERING_SOLUTIONS Z) (CLUSTERING_SOLUTION_ARGS Z))"
  proof (rule for_loop_rows)
    fix x :: "string \<times> string list" and v :: "'a world"
    assume "fst (clustering_run P Z inp x v) = Inr ()"
    then show "length (results (snd (clustering_run P Z inp x v))) = Suc (length (results v))"
      using clustering_run_success [of P Z inp "fst x" "snd x" v] by auto
  next
    show "fst (for_loop (clustering_run P Z inp)
                (zip (CLUSTERING_SOLUTIONS Z) (CLUSTERING_SOLUTION_ARGS Z)) w) = Inr ()"
      using a by (simp add: test_clustering_def)
  qed
  then show "length (results (snd (test_clustering P Z inp w)))
          = length (results w) + length (CLUSTERING_SOLUTIONS Z)"
    by (simp add: test_clustering_def CLUSTERING_SOLUTIONS_def CLUSTERING_SOLUTION_ARGS_def)
qed

lemma toy_first_runs:
  "fst (facility_location_run toy 1 ''data/gen/gen_n100_d2.in'' (''mettu_plaxton_z1'', []) toy_world)
     = Inr ()"
  "fst (clustering_run toy 1 ''data/gen/gen_n100_d2.in'' (''scikit_z1'', [''pam'']) toy_world)
     = Inr ()"
  by (simp_all add: facility_location_run_def clustering_run_def FACILITY_JUDGE_def
      CLUSTERING_JUDGE_def toy_eval str_int_1 digit_chr_def chr_eval)

theorem result_row_shape_witness:
  "fst (facility_location_run toy 1 ''data/gen/gen_n100_d2.in'' (''mettu_plaxton_z1'', []) toy_world)
     = Inr ()
   \<and> fst (clustering_run toy 1 ''data/gen/gen_n100_d2.in'' (''scikit_z1'', [''pam'']) toy_world)
     = Inr ()
   \<and> fst (test_facility_location toy 1 ''data/gen/gen_n100_d2.in'' toy_world) = Inr ()
   \<and> fst (test_clustering toy 1 ''data/gen/gen_n100_d2.in'' toy_world) = Inr ()
   \<and> (\<exists>row. results (snd (facility_location_run toy 1 ''data/gen/gen_n100_d2.in''
                             (''mettu_plaxton_z1'', []) toy_world)) = [row]
         \<and> length row = 5)
   \<and> (\<exists>row content.
         results (snd (clustering_run toy 1 ''data/gen/gen_n100_d2.in''
                         (''scikit_z1'', [''pam'']) toy_world)) = [row]
         \<and> length row = 6
         \<and> files (snd (clustering_run toy 1 ''data/gen/gen_n100_d2.in''
                         (''scikit_z1'', [''pam'']) toy_world))
              (output_path_of ''data/gen/gen_n100_d2.in'' ''scikit_z1'' [''pam'']) = Some content
         \<and> row ! 3 = IntField (int (length (filter (\<lambda>r. strip r \<noteq> []) (readlines content)))))
   \<and> length (results (snd (test_facility_location toy 1 ''data/gen/gen_n100_d2.in'' toy_world)))
       = 3
   \<and> length (results (snd (test_clustering toy 1 ''data/gen/gen_n100_d2.in'' toy_world))) = 4"
  using result_row_shape [of toy 1 "''data/gen/gen_n100_d2.in''" "''mettu_plaxton_z1''" "[]"
      toy_world]
    result_row_shape [of toy 1 "''data/gen/gen_n100_d2.in''" "''scikit_z1''" "[''pam'']"
      toy_world]
    toy_first_runs toy_facility_location(1) toy_clustering(1)
  by (simp add: toy_world_def FACILITY_SOLUTIONS_def CLUSTERING_SOLUTIONS_def)

theorem row_shape_counterexample:
  "fst (test_facility_location toy 1 ''data/gen/gen_n100_d2.in'' toy_world) = Inr ()
   \<and> map length (results (snd (test_facility_location toy 1 ''data/gen/gen_n100_d2.in'' toy_world)))
       = [5, 5, 5]
   \<and> fst (test_clustering toy 1 ''data/gen/gen_n100_d2.in'' toy_world) = Inr ()
   \<and> map length (results (snd (test_clustering toy 1 ''data/gen/gen_n100_d2.in'' toy_world)))
       = [6, 6, 6, 6]"
  by (simp add: toy_facility_location toy_clustering)

section \<open>Exit codes\<close>

lemma gen_asserts:
  "returncode (run P (w\<lparr>files := (files w)(fp \<mapsto> [])\<rparr>) c) \<noteq> 0 \<Longrightarrow>
   fp = path_join (path_join DATA_DIR GEN_DATA_DIR)
          (''gen_n'' @ str_int sz @ ''_d'' @ str_int dimension @ ''.in'') \<Longrightarrow>
   c = \<lparr>argv = [path_join BUILD_DIR (GENERATOR Z)],
        stdin = str_int sz @ '' '' @ str_int dimension @ '' '' @ str_int k @ [NL], env = None\<rparr> \<Longrightarrow>
   fst (gen P Z sz dimension k w) = Inl AssertionError"
  by (simp add: gen_def Let_def)

lemma solve_asserts:
  "files w input_path = Some content \<Longrightarrow>
   returncode (run P (w\<lparr>ticks := Suc (ticks w),
                        files := (files w)(output_path_of input_path solution args \<mapsto> [])\<rparr>)
                 \<lparr>argv = path_join BUILD_DIR solution # args, stdin = content, env = None\<rparr>) \<noteq> 0 \<Longrightarrow>
   fst (solve P input_path solution args w) = Inl AssertionError"
  by (simp add: solve_def Let_def)

text \<open>
  C2 at a platform whose binaries all print \<open>7\<close> and exit with code 1: \<open>gen\<close> and
  \<open>solve\<close> raise \<open>AssertionError\<close>; \<open>judge\<close> never looks at the exit code and returns
  the score 7.
\<close>

theorem judge_ignores_exit_code:
  "returncode (run toy_failing toy_world
                 \<lparr>argv = [''build/facility_set_cost_z1''],
                  stdin = ''2 2 1'' @ [NL] @ ''0 0'' @ [NL] @ ''1 1'' @ [NL],
                  env = Some [(''SOLUTION'', ''data/gen/gen_n100_d2.mettu_plaxton_z1..out'')]\<rparr>) = 1
   \<and> fst (gen toy_failing 1 100 2 1 toy_world) = Inl AssertionError
   \<and> fst (solve toy_failing ''data/gen/gen_n100_d2.in'' ''mettu_plaxton_z1'' [] toy_world)
       = Inl AssertionError
   \<and> fst (judge toy_failing ''facility_set_cost_z1'' ''data/gen/gen_n100_d2.in''
            ''data/gen/gen_n100_d2.mettu_plaxton_z1..out'' toy_world) = Inr 7"
  by (simp add: gen_def solve_def judge_def toy_eval strip_def is_space_def nat_literal_def
      is_digit_def digit_val_def)

section \<open>The judge\<close>

text \<open>
  C8. When the instance file exists, \<open>judge\<close> runs the judge binary once: the text of the
  instance is its standard input and the variable \<open>SOLUTION\<close> of its environment is the
  path of the solver's output. The result is the float that the stripped standard output
  reads as; an output that does not decode or does not read as a float is an error
  (\<open>UnicodeDecodeError\<close> and \<open>float\<close>'s \<open>ValueError\<close>), returned to the caller, and the
  binary is not run again.
\<close>

theorem judge_protocol:
  assumes "files w input_path = Some content"
  shows "\<exists>c e. calls (snd (judge P name input_path output_path w)) = calls w @ [c]
           \<and> argv c = [path_join BUILD_DIR name]
           \<and> stdin c = content
           \<and> env c = Some e \<and> map_of e ''SOLUTION'' = Some output_path
           \<and> fst (judge P name input_path output_path w)
               = (case decode P (stdout (run P w c)) of
                    None \<Rightarrow> Inl UnicodeDecodeError
                  | Some text \<Rightarrow>
                      (case float P (strip text) of
                         None \<Rightarrow> Inl FloatLiteralError
                       | Some score \<Rightarrow> Inr score))"
  using assms by (simp add: judge_def Let_def split: option.splits)

theorem judge_protocol_witness:
  "files toy_world ''data/gen/gen_n100_d2.in'' = Some (''2 2 1'' @ [NL] @ ''0 0'' @ [NL] @ ''1 1'' @ [NL])
   \<and> (\<exists>c e. calls (snd (judge toy ''facility_set_cost_z1'' ''data/gen/gen_n100_d2.in'' ''s.out''
                          toy_world)) = [c]
         \<and> argv c = [''build/facility_set_cost_z1'']
         \<and> stdin c = ''2 2 1'' @ [NL] @ ''0 0'' @ [NL] @ ''1 1'' @ [NL]
         \<and> env c = Some e \<and> map_of e ''SOLUTION'' = Some ''s.out''
         \<and> fst (judge toy ''facility_set_cost_z1'' ''data/gen/gen_n100_d2.in'' ''s.out'' toy_world)
             = Inr 7)"
proof -
  have f: "files toy_world ''data/gen/gen_n100_d2.in''
             = Some (''2 2 1'' @ [NL] @ ''0 0'' @ [NL] @ ''1 1'' @ [NL])"
    by (simp add: toy_world_def)
  from judge_protocol [OF f, of toy "''facility_set_cost_z1''" "''s.out''"]
  show ?thesis
    by (simp add: f toy_simps strip_def is_space_def nat_literal_def is_digit_def digit_val_def
        NL_def path_join_def BUILD_DIR_def startswith_def toy_world_def)
qed

text \<open>
  C9. The environment that \<open>judge\<close> gives the judge binary is the dictionary
  \<open>{"SOLUTION": output_path}\<close> and nothing else: the binary inherits no variable of
  the harness.
\<close>

theorem judge_environment:
  assumes "files w input_path = Some content"
  shows "\<exists>c. calls (snd (judge P name input_path output_path w)) = calls w @ [c]
           \<and> env c = Some [(''SOLUTION'', output_path)]"
  using assms by (simp add: judge_def Let_def split: option.splits)

theorem judge_environment_witness:
  "files toy_world ''data/gen/gen_n100_d2.in'' \<noteq> None
   \<and> (\<exists>c. calls (snd (judge toy ''clustering_cost_z2'' ''data/gen/gen_n100_d2.in'' ''s.out''
                        toy_world)) = calls toy_world @ [c]
         \<and> env c = Some [(''SOLUTION'', ''s.out'')])"
proof -
  have f: "files toy_world ''data/gen/gen_n100_d2.in''
             = Some (''2 2 1'' @ [NL] @ ''0 0'' @ [NL] @ ''1 1'' @ [NL])"
    by (simp add: toy_world_def)
  from judge_environment [OF f, of toy "''clustering_cost_z2''" "''s.out''"]
  show ?thesis by (simp add: f)
qed

section \<open>Names of the charts\<close>

lemma configured_titles_eval:
  "configured_titles =
     [''Facility Location (d=2, z=1)'', ''Facility Location (d=5, z=1)'',
      ''Facility Location (d=10, z=1)'', ''Facility Location (n=10000, z=1)'',
      ''Clustering (d=2, z=1)'', ''Clustering (d=5, z=1)'', ''Clustering (d=10, z=1)'',
      ''Clustering (n=10000, z=1)'', ''Clustering (d=2, z=2)'', ''Clustering (d=5, z=2)'',
      ''Clustering (d=10, z=2)'', ''Clustering (n=10000, z=2)'']"
  by (simp add: configured_titles_def FILES_def plot_name_def PLOT_DIMENSIONS_def PLOT_SIZES_def
      title_d_def title_n_def startswith_def str_int_def str_nat.simps digit_chr_def chr_eval)

lemma fignames_eval:
  "map (\<lambda>(ttl, val_name). figname ttl val_name) configured_charts =
     [''facility_location_clusters_d2_z1.svg'', ''facility_location_cost_d2_z1.svg'',
      ''facility_location_time_d2_z1.svg'', ''facility_location_clusters_d5_z1.svg'',
      ''facility_location_cost_d5_z1.svg'', ''facility_location_time_d5_z1.svg'',
      ''facility_location_clusters_d10_z1.svg'', ''facility_location_cost_d10_z1.svg'',
      ''facility_location_time_d10_z1.svg'', ''facility_location_clusters_n10000_z1.svg'',
      ''facility_location_cost_n10000_z1.svg'', ''facility_location_time_n10000_z1.svg'',
      ''clustering_clusters_d2_z1.svg'', ''clustering_cost_d2_z1.svg'',
      ''clustering_time_d2_z1.svg'', ''clustering_clusters_d5_z1.svg'',
      ''clustering_cost_d5_z1.svg'', ''clustering_time_d5_z1.svg'',
      ''clustering_clusters_d10_z1.svg'', ''clustering_cost_d10_z1.svg'',
      ''clustering_time_d10_z1.svg'', ''clustering_clusters_n10000_z1.svg'',
      ''clustering_cost_n10000_z1.svg'', ''clustering_time_n10000_z1.svg'',
      ''clustering_clusters_d2_z2.svg'', ''clustering_cost_d2_z2.svg'',
      ''clustering_time_d2_z2.svg'', ''clustering_clusters_d5_z2.svg'',
      ''clustering_cost_d5_z2.svg'', ''clustering_time_d5_z2.svg'',
      ''clustering_clusters_d10_z2.svg'', ''clustering_cost_d10_z2.svg'',
      ''clustering_time_d10_z2.svg'', ''clustering_clusters_n10000_z2.svg'',
      ''clustering_cost_n10000_z2.svg'', ''clustering_time_n10000_z2.svg'']"
  unfolding configured_charts_def configured_titles_eval CL_VALUES_def FL_VALUES_def
  by (simp add: figname_def lower_def lower_chr_def chr_eval startswith_def REPLACE_def)

lemma fignames_distinct:
  "distinct (map (\<lambda>(ttl, val_name). figname ttl val_name) configured_charts)"
  unfolding fignames_eval by simp

lemma fignames_plain:
  "list_all (\<lambda>name. endswith name ''.svg'' \<and> list_all plain_chr (take (length name - 4) name))
     (map (\<lambda>(ttl, val_name). figname ttl val_name) configured_charts)"
  unfolding fignames_eval by (simp add: endswith_def plain_chr_def is_digit_def)

lemma configured_charts_members:
  "(''Clustering (d=2, z=1)'', ''Cost'') \<in> set configured_charts"
  "(''Clustering (d=2, z=2)'', ''Cost'') \<in> set configured_charts"
  "(''Facility Location (d=2, z=1)'', ''Time [s]'') \<in> set configured_charts"
  unfolding configured_charts_def configured_titles_eval CL_VALUES_def FL_VALUES_def
  by simp_all

text \<open>
  C6. The file name of a chart is a function of its title and metric, \<open>figname\<close>. On the
  charts of the configuration (the titles of the three files, at each dimension and size
  of the allow-lists, with each metric) it is injective, and each name is \<open>.svg\<close> after
  lowercase letters, digits and underscores only. The title
  \<open>Facility Location (d=2, z=1)\<close> with the metric \<open>Time [s]\<close> gives
  \<open>facility_location_time_d2_z1.svg\<close>.
\<close>

theorem figname_injective:
  "inj_on (\<lambda>(ttl, val_name). figname ttl val_name) (set configured_charts)
   \<and> (\<forall>(ttl, val_name) \<in> set configured_charts.
         endswith (figname ttl val_name) ''.svg''
         \<and> list_all plain_chr (take (length (figname ttl val_name) - 4) (figname ttl val_name)))
   \<and> figname ''Facility Location (d=2, z=1)'' ''Time [s]'' = ''facility_location_time_d2_z1.svg''"
proof (intro conjI)
  show "inj_on (\<lambda>(ttl, val_name). figname ttl val_name) (set configured_charts)"
    using fignames_distinct by (simp add: distinct_map)
  show "\<forall>(ttl, val_name) \<in> set configured_charts.
         endswith (figname ttl val_name) ''.svg''
         \<and> list_all plain_chr (take (length (figname ttl val_name) - 4) (figname ttl val_name))"
    using fignames_plain unfolding list_all_iff by auto
  show "figname ''Facility Location (d=2, z=1)'' ''Time [s]'' = ''facility_location_time_d2_z1.svg''"
    by (simp add: figname_def lower_def lower_chr_def chr_eval startswith_def REPLACE_def)
qed

theorem figname_injective_witness:
  "(''Clustering (d=2, z=1)'', ''Cost'') \<in> set configured_charts
   \<and> (''Clustering (d=2, z=2)'', ''Cost'') \<in> set configured_charts
   \<and> figname ''Clustering (d=2, z=1)'' ''Cost'' \<noteq> figname ''Clustering (d=2, z=2)'' ''Cost''
   \<and> endswith (figname ''Clustering (d=2, z=1)'' ''Cost'') ''.svg''"
proof -
  note m = configured_charts_members
  have "figname ''Clustering (d=2, z=1)'' ''Cost'' \<noteq> figname ''Clustering (d=2, z=2)'' ''Cost''"
    using inj_onD [OF figname_injective [THEN conjunct1], OF _ m(1) m(2)] by auto
  moreover have "endswith (figname ''Clustering (d=2, z=1)'' ''Cost'') ''.svg''"
    using figname_injective [THEN conjunct2, THEN conjunct1] m(1) by blast
  ultimately show ?thesis using m by simp
qed

section \<open>Output paths\<close>

lemma facility_output_paths:
  "map (\<lambda>(s, a). output_path_of inp s a) (zip (FACILITY_SOLUTIONS Z) FACILITY_SOLUTION_ARGS) =
     [removesuffix inp ''.in'' @ ''.mettu_plaxton_z'' @ str_int Z @ ''..out'',
      removesuffix inp ''.in'' @ ''.facility_set_z'' @ str_int Z
        @ ''.grid_hashing.60042651f648e052.out'',
      removesuffix inp ''.in'' @ ''.facility_set_z'' @ str_int Z
        @ ''.face_hashing.60042651f648e052.out'']"
  unfolding facility_combinations by (simp add: output_path_of_def)

lemma facility_output_paths_distinct:
  "distinct (map (\<lambda>(s, a). output_path_of inp s a)
               (zip (FACILITY_SOLUTIONS Z) FACILITY_SOLUTION_ARGS))"
  unfolding facility_output_paths by simp

lemma facility_location_run_files_grow:
  "files w p \<noteq> None \<Longrightarrow> files (snd (facility_location_run P Z inp sa w)) p \<noteq> None"
proof -
  assume p: "files w p \<noteq> None"
  let ?s = "solve P inp (fst sa) (snd sa) w"
  have s: "files (snd ?s) p \<noteq> None" using p by (rule solve_files_grow)
  show ?thesis
  proof (cases "fst ?s")
    case (Inl e)
    then have "facility_location_run P Z inp sa w = (Inl e, snd ?s)"
      by (cases ?s) (simp add: facility_location_run_def and_then_def)
    with s show ?thesis by simp
  next
    case (Inr ot)
    obtain out t where ot: "ot = (out, t)" by (cases ot)
    let ?j = "judge P (FACILITY_JUDGE Z) inp out (snd ?s)"
    have j: "files (snd ?j) = files (snd ?s)" by (rule judge_files)
    show ?thesis
    proof (cases "fst ?j")
      case (Inl e)
      with Inr ot
      have "facility_location_run P Z inp sa w = (Inl e, snd ?j)"
        by (cases ?s; cases ?j) (simp add: facility_location_run_def and_then_def)
      with s j show ?thesis by simp
    next
      case (Inr score)
      with \<open>fst ?s = Inr ot\<close> ot
      have "files (snd (facility_location_run P Z inp sa w)) = files (snd ?j)"
        by (cases ?s; cases ?j) (simp add: facility_location_run_def and_then_def writerow_def)
      with s j show ?thesis by simp
    qed
  qed
qed

text \<open>
  C4. The path that \<open>solve\<close> returns is \<open>output_path_of\<close> of the input path, the solver and
  the arguments, whatever the state and the platform. For the three facility-location
  variants on one instance the three paths are pairwise distinct; a completed run of
  \<open>test_facility_location\<close> leaves a file at each of them and appends three rows, which
  have the name of the instance as first field and differ pairwise in the pair of their
  solver and arguments fields.
\<close>

theorem solve_output_paths:
  "(fst (solve P inp solution args w) = Inr (p, t) \<longrightarrow> p = output_path_of inp solution args)
   \<and> length (zip (FACILITY_SOLUTIONS Z) FACILITY_SOLUTION_ARGS) = 3
   \<and> distinct (map (\<lambda>(s, a). output_path_of inp s a)
                 (zip (FACILITY_SOLUTIONS Z) FACILITY_SOLUTION_ARGS))
   \<and> (fst (test_facility_location P Z inp w) = Inr () \<longrightarrow>
        (\<forall>(s, a) \<in> set (zip (FACILITY_SOLUTIONS Z) FACILITY_SOLUTION_ARGS).
           files (snd (test_facility_location P Z inp w)) (output_path_of inp s a) \<noteq> None)
        \<and> (\<exists>r1 r2 r3.
             results (snd (test_facility_location P Z inp w)) = results w @ [r1, r2, r3]
             \<and> r1 ! 0 = StrField (basename inp) \<and> r2 ! 0 = StrField (basename inp)
             \<and> r3 ! 0 = StrField (basename inp)
             \<and> distinct [(r1 ! 1, r1 ! 2), (r2 ! 1, r2 ! 2), (r3 ! 1, r3 ! 2)]))"
proof (intro conjI impI)
  assume "fst (solve P inp solution args w) = Inr (p, t)"
  then show "p = output_path_of inp solution args" by (rule solve_success(1))
next
  show "length (zip (FACILITY_SOLUTIONS Z) FACILITY_SOLUTION_ARGS) = 3"
    unfolding facility_combinations by simp
next
  show "distinct (map (\<lambda>(s, a). output_path_of inp s a)
                 (zip (FACILITY_SOLUTIONS Z) FACILITY_SOLUTION_ARGS))"
    by (rule facility_output_paths_distinct)
next
  assume a: "fst (test_facility_location P Z inp w) = Inr ()"
  let ?body = "facility_location_run P Z inp"
  let ?x1 = "(''mettu_plaxton_z'' @ str_int Z, [] :: string list)"
  let ?x2 = "(''facility_set_z'' @ str_int Z, [''grid_hashing'', ''60042651f648e052''])"
  let ?x3 = "(''facility_set_z'' @ str_int Z, [''face_hashing'', ''60042651f648e052''])"
  let ?w1 = "snd (?body ?x1 w)"
  let ?w2 = "snd (?body ?x2 ?w1)"
  let ?w3 = "snd (?body ?x3 ?w2)"
  have l0: "fst (for_loop ?body [?x1, ?x2, ?x3] w) = Inr ()"
    using a by (simp only: test_facility_location_def facility_combinations)
  have b1: "fst (?body ?x1 w) = Inr ()"
    and e1: "for_loop ?body [?x1, ?x2, ?x3] w = for_loop ?body [?x2, ?x3] ?w1"
    using for_loop_success [OF l0] by auto
  have l1: "fst (for_loop ?body [?x2, ?x3] ?w1) = Inr ()" using l0 e1 by simp
  have b2: "fst (?body ?x2 ?w1) = Inr ()"
    and e2: "for_loop ?body [?x2, ?x3] ?w1 = for_loop ?body [?x3] ?w2"
    using for_loop_success [OF l1] by auto
  have l2: "fst (for_loop ?body [?x3] ?w2) = Inr ()" using l1 e2 by simp
  have b3: "fst (?body ?x3 ?w2) = Inr ()"
    and e3: "for_loop ?body [?x3] ?w2 = for_loop ?body [] ?w3"
    using for_loop_success [OF l2] by auto
  have "test_facility_location P Z inp w = for_loop ?body [?x1, ?x2, ?x3] w"
    by (simp only: test_facility_location_def facility_combinations)
  also have "\<dots> = for_loop ?body [] ?w3"
    by (simp only: e1 e2 e3)
  finally have fin: "snd (test_facility_location P Z inp w) = ?w3"
    by simp
  from facility_location_run_success [OF b1] obtain sc1 t1 where
    r1: "results ?w1 = results w @ [[StrField (basename inp), StrField (fst ?x1),
            StrField (join '' '' (snd ?x1)), StrField (fmt4 P sc1), FloatField t1]]"
    and f1: "files ?w1 (output_path_of inp (fst ?x1) (snd ?x1)) \<noteq> None"
    by auto
  from facility_location_run_success [OF b2] obtain sc2 t2 where
    r2: "results ?w2 = results ?w1 @ [[StrField (basename inp), StrField (fst ?x2),
            StrField (join '' '' (snd ?x2)), StrField (fmt4 P sc2), FloatField t2]]"
    and f2: "files ?w2 (output_path_of inp (fst ?x2) (snd ?x2)) \<noteq> None"
    by auto
  from facility_location_run_success [OF b3] obtain sc3 t3 where
    r3: "results ?w3 = results ?w2 @ [[StrField (basename inp), StrField (fst ?x3),
            StrField (join '' '' (snd ?x3)), StrField (fmt4 P sc3), FloatField t3]]"
    and f3: "files ?w3 (output_path_of inp (fst ?x3) (snd ?x3)) \<noteq> None"
    by auto
  have g1: "files ?w3 (output_path_of inp (fst ?x1) (snd ?x1)) \<noteq> None"
    by (rule facility_location_run_files_grow [OF facility_location_run_files_grow [OF f1]])
  have g2: "files ?w3 (output_path_of inp (fst ?x2) (snd ?x2)) \<noteq> None"
    by (rule facility_location_run_files_grow [OF f2])
  show "\<forall>(s, a) \<in> set (zip (FACILITY_SOLUTIONS Z) FACILITY_SOLUTION_ARGS).
           files (snd (test_facility_location P Z inp w)) (output_path_of inp s a) \<noteq> None"
    unfolding fin facility_combinations using g1 g2 f3 by simp
  show "\<exists>r1 r2 r3.
             results (snd (test_facility_location P Z inp w)) = results w @ [r1, r2, r3]
             \<and> r1 ! 0 = StrField (basename inp) \<and> r2 ! 0 = StrField (basename inp)
             \<and> r3 ! 0 = StrField (basename inp)
             \<and> distinct [(r1 ! 1, r1 ! 2), (r2 ! 1, r2 ! 2), (r3 ! 1, r3 ! 2)]"
    unfolding fin r3 r2 r1
    by (intro exI [of _ "[StrField (basename inp), StrField (fst ?x1),
            StrField (join '' '' (snd ?x1)), StrField (fmt4 P sc1), FloatField t1]"]
          exI [of _ "[StrField (basename inp), StrField (fst ?x2),
            StrField (join '' '' (snd ?x2)), StrField (fmt4 P sc2), FloatField t2]"]
          exI [of _ "[StrField (basename inp), StrField (fst ?x3),
            StrField (join '' '' (snd ?x3)), StrField (fmt4 P sc3), FloatField t3]"])
       (simp add: numeral_2_eq_2)
qed

theorem solve_output_paths_witness:
  "fst (solve toy ''data/gen/gen_n100_d2.in'' ''mettu_plaxton_z1'' [] toy_world)
     = Inr (''data/gen/gen_n100_d2.mettu_plaxton_z1..out'', 1)
   \<and> fst (test_facility_location toy 1 ''data/gen/gen_n100_d2.in'' toy_world) = Inr ()
   \<and> ''data/gen/gen_n100_d2.mettu_plaxton_z1..out''
       = output_path_of ''data/gen/gen_n100_d2.in'' ''mettu_plaxton_z1'' []
   \<and> (''facility_set_z1'', [''face_hashing'', ''60042651f648e052''])
       \<in> set (zip (FACILITY_SOLUTIONS 1) FACILITY_SOLUTION_ARGS)
   \<and> files (snd (test_facility_location toy 1 ''data/gen/gen_n100_d2.in'' toy_world))
       (output_path_of ''data/gen/gen_n100_d2.in'' ''facility_set_z1''
          [''face_hashing'', ''60042651f648e052'']) \<noteq> None
   \<and> (\<exists>r1 r2 r3.
         results (snd (test_facility_location toy 1 ''data/gen/gen_n100_d2.in'' toy_world))
           = [r1, r2, r3]
         \<and> r1 ! 0 = StrField ''gen_n100_d2.in'' \<and> r2 ! 0 = StrField ''gen_n100_d2.in''
         \<and> r3 ! 0 = StrField ''gen_n100_d2.in''
         \<and> distinct [(r1 ! 1, r1 ! 2), (r2 ! 1, r2 ! 2), (r3 ! 1, r3 ! 2)])"
proof -
  have s: "fst (solve toy ''data/gen/gen_n100_d2.in'' ''mettu_plaxton_z1'' [] toy_world)
             = Inr (''data/gen/gen_n100_d2.mettu_plaxton_z1..out'', 1)"
    by (simp add: solve_def output_path_of_def removesuffix_def endswith_def toy_eval)
  have m: "(''facility_set_z1'', [''face_hashing'', ''60042651f648e052''])
             \<in> set (zip (FACILITY_SOLUTIONS 1) FACILITY_SOLUTION_ARGS)"
    unfolding facility_combinations str_int_1 by simp
  have b: "basename ''data/gen/gen_n100_d2.in'' = ''gen_n100_d2.in''"
    by (simp add: basename_def)
  have r: "results toy_world = []" by (simp add: toy_world_def)
  note t = solve_output_paths [of toy "''data/gen/gen_n100_d2.in''" "''mettu_plaxton_z1''" "[]"
      toy_world "''data/gen/gen_n100_d2.mettu_plaxton_z1..out''" 1 1]
  from t s have 1: "''data/gen/gen_n100_d2.mettu_plaxton_z1..out''
       = output_path_of ''data/gen/gen_n100_d2.in'' ''mettu_plaxton_z1'' []"
    by blast
  from t toy_facility_location(1) m
  have 2: "files (snd (test_facility_location toy 1 ''data/gen/gen_n100_d2.in'' toy_world))
       (output_path_of ''data/gen/gen_n100_d2.in'' ''facility_set_z1''
          [''face_hashing'', ''60042651f648e052'']) \<noteq> None"
    by blast
  from t toy_facility_location(1)
  have 3: "\<exists>r1 r2 r3.
         results (snd (test_facility_location toy 1 ''data/gen/gen_n100_d2.in'' toy_world))
           = results toy_world @ [r1, r2, r3]
         \<and> r1 ! 0 = StrField (basename ''data/gen/gen_n100_d2.in'')
         \<and> r2 ! 0 = StrField (basename ''data/gen/gen_n100_d2.in'')
         \<and> r3 ! 0 = StrField (basename ''data/gen/gen_n100_d2.in'')
         \<and> distinct [(r1 ! 1, r1 ! 2), (r2 ! 1, r2 ! 2), (r3 ! 1, r3 ! 2)]"
    by blast
  show ?thesis
    using s toy_facility_location(1) 1 m 2 3 unfolding b r by simp
qed

section \<open>The parameter of the generator\<close>

lemma int_of_float_between:
  fixes k :: int
  assumes "0 \<le> k" and "real_of_int k \<le> x" and "x < real_of_int k + 1"
  shows "int_of_float x = k"
proof -
  have "0 \<le> x" using assms(1,2) by linarith
  moreover have "\<lfloor>x\<rfloor> = k" using assms(2,3) by (rule floor_unique)
  ultimately show ?thesis by (simp add: int_of_float_def)
qed

lemma floor_sqrt_between:
  fixes k n :: int
  assumes k: "0 \<le> k"
    and lo: "(10 * k + 1)\<^sup>2 \<le> 100 * n"
    and hi: "100 * n \<le> (10 * k + 9)\<^sup>2"
    and x: "\<bar>x - sqrt (real_of_int n)\<bar> < 1 / 10"
  shows "int_of_float x = k \<and> \<lfloor>sqrt (real_of_int n)\<rfloor> = k"
proof -
  have "real_of_int ((10 * k + 1)\<^sup>2) \<le> real_of_int (100 * n)"
    using lo by (simp only: of_int_le_iff)
  then have "(real_of_int k + 1 / 10)\<^sup>2 \<le> real_of_int n"
    by (simp add: power2_eq_square algebra_simps)
  then have a: "real_of_int k + 1 / 10 \<le> sqrt (real_of_int n)"
    by (rule real_le_rsqrt)
  have "real_of_int (100 * n) \<le> real_of_int ((10 * k + 9)\<^sup>2)"
    using hi by (simp only: of_int_le_iff)
  then have "real_of_int n \<le> (real_of_int k + 9 / 10)\<^sup>2"
    by (simp add: power2_eq_square algebra_simps)
  moreover have "0 \<le> real_of_int k + 9 / 10" using k by simp
  ultimately have b: "sqrt (real_of_int n) \<le> real_of_int k + 9 / 10"
    by (intro real_le_lsqrt)
  have "real_of_int k \<le> x" and "x < real_of_int k + 1"
    using a b x by linarith+
  then have "int_of_float x = k" using k by (intro int_of_float_between)
  moreover have "\<lfloor>sqrt (real_of_int n)\<rfloor> = k"
    using a b by (intro floor_unique) linarith+
  ultimately show ?thesis by simp
qed

lemma floor_sqrt_square:
  fixes k :: int
  assumes k: "0 \<le> k"
    and x: "\<bar>x - sqrt (real_of_int (k * k))\<bar> < 1 / 10"
    and ge: "real_of_int k \<le> x"
  shows "int_of_float x = k \<and> \<lfloor>sqrt (real_of_int (k * k))\<rfloor> = k"
proof -
  have s: "sqrt (real_of_int (k * k)) = real_of_int k"
    using k by simp
  have "x < real_of_int k + 1" using x unfolding s by linarith
  with ge k have "int_of_float x = k" by (intro int_of_float_between)
  then show ?thesis unfolding s by simp
qed

lemma gen_call:
  "calls (snd (gen P Z sz dimension k w)) = calls w @
     [\<lparr>argv = [path_join BUILD_DIR (GENERATOR Z)],
       stdin = str_int sz @ '' '' @ str_int dimension @ '' '' @ str_int k @ [NL],
       env = None\<rparr>]"
  by (simp add: gen_def Let_def)

text \<open>
  C10. In the body of the sweep the third argument of \<open>gen\<close>, which is the third number
  of the line that the generator reads, is \<open>FACILITY_COST = 1\<close> for the facility-location
  target and \<open>int(size**0.5)\<close> for the clustering target. The float power is a parameter
  of the platform: where its value at a size of \<open>SIZES\<close> is less than a tenth away from
  the real square root, and not below it when the size is a perfect square, the integer
  is the floor of the square root.
\<close>

theorem sweep_generator_parameter:
  assumes n: "n \<in> set SIZES"
    and near: "\<bar>pow_half P n - sqrt (real_of_int n)\<bar> < 1 / 10"
    and square: "\<forall>k. 0 \<le> k \<and> n = k * k \<longrightarrow> real_of_int k \<le> pow_half P n"
  shows "sweep_parameter P CL n = \<lfloor>sqrt (real_of_int n)\<rfloor>
       \<and> sweep_parameter P FL n = 1
       \<and> sweep_run P Z CL (n, d)
           = and_then (gen P Z n d \<lfloor>sqrt (real_of_int n)\<rfloor>) (test P Z CL)
       \<and> sweep_run P Z FL (n, d) = and_then (gen P Z n d 1) (test P Z FL)
       \<and> calls (snd (gen P Z n d (sweep_parameter P CL n) w)) = calls w @
           [\<lparr>argv = [path_join BUILD_DIR (GENERATOR Z)],
             stdin = str_int n @ '' '' @ str_int d @ '' ''
                       @ str_int \<lfloor>sqrt (real_of_int n)\<rfloor> @ [NL],
             env = None\<rparr>]
       \<and> calls (snd (gen P Z n d (sweep_parameter P FL n) w)) = calls w @
           [\<lparr>argv = [path_join BUILD_DIR (GENERATOR Z)],
             stdin = str_int n @ '' '' @ str_int d @ '' '' @ str_int 1 @ [NL],
             env = None\<rparr>]"
proof -
  let ?x = "pow_half P n"
  have sq: "\<And>k. 0 \<le> k \<Longrightarrow> n = k * k \<Longrightarrow>
              int_of_float ?x = \<lfloor>sqrt (real_of_int n)\<rfloor>"
  proof -
    fix k :: int assume k: "0 \<le> k" and nk: "n = k * k"
    have "real_of_int k \<le> ?x" using square k nk by blast
    with floor_sqrt_square [OF k, of ?x] near nk show "int_of_float ?x = \<lfloor>sqrt (real_of_int n)\<rfloor>"
      by simp
  qed
  have bt: "\<And>k. 0 \<le> k \<Longrightarrow> (10 * k + 1)\<^sup>2 \<le> 100 * n \<Longrightarrow> 100 * n \<le> (10 * k + 9)\<^sup>2 \<Longrightarrow>
              int_of_float ?x = \<lfloor>sqrt (real_of_int n)\<rfloor>"
    using floor_sqrt_between [OF _ _ _ near] by simp
  from n consider "n = 100" | "n = 500" | "n = 1000" | "n = 5000" | "n = 10000"
    | "n = 50000" | "n = 100000" | "n = 500000" | "n = 1000000"
    by (auto simp: SIZES_def)
  then have "int_of_float ?x = \<lfloor>sqrt (real_of_int n)\<rfloor>"
  proof cases
    case 1 then show ?thesis by (intro sq [of 10]) simp_all
  next
    case 2 then show ?thesis by (intro bt [of 22]) simp_all
  next
    case 3 then show ?thesis by (intro bt [of 31]) simp_all
  next
    case 4 then show ?thesis by (intro bt [of 70]) simp_all
  next
    case 5 then show ?thesis by (intro sq [of 100]) simp_all
  next
    case 6 then show ?thesis by (intro bt [of 223]) simp_all
  next
    case 7 then show ?thesis by (intro bt [of 316]) simp_all
  next
    case 8 then show ?thesis by (intro bt [of 707]) simp_all
  next
    case 9 then show ?thesis by (intro sq [of 1000]) simp_all
  qed
  then have cl: "sweep_parameter P CL n = \<lfloor>sqrt (real_of_int n)\<rfloor>"
    by (simp add: sweep_parameter_def)
  have fl: "sweep_parameter P FL n = 1"
    by (simp add: sweep_parameter_def FACILITY_COST_def)
  show ?thesis
    unfolding gen_call
    using cl fl by (simp add: sweep_run_def)
qed

theorem sweep_generator_parameter_witness:
  "100 \<in> set SIZES \<and> 500 \<in> set SIZES
   \<and> \<bar>pow_half toy 100 - sqrt (real_of_int 100)\<bar> < 1 / 10
   \<and> \<bar>pow_half toy 500 - sqrt (real_of_int 500)\<bar> < 1 / 10
   \<and> real_of_int 10 \<le> pow_half toy 100
   \<and> sweep_parameter toy CL 100 = 10 \<and> sweep_parameter toy FL 100 = 1
   \<and> sweep_parameter toy CL 500 = \<lfloor>sqrt (real_of_int 500)\<rfloor>
   \<and> sweep_parameter toy FL 500 = 1"
proof -
  have m1: "100 \<in> set SIZES" and m5: "500 \<in> set SIZES" by (simp_all add: SIZES_def)
  have near: "\<bar>pow_half toy n - sqrt (real_of_int n)\<bar> < 1 / 10" for n
    by (simp add: toy_simps)
  have square: "\<forall>k. 0 \<le> k \<and> n = k * k \<longrightarrow> real_of_int k \<le> pow_half toy n" for n
    by (auto simp: toy_simps)
  have s: "sqrt (real_of_int 100) = real_of_int 10"
    using real_sqrt_abs2 [of 10] by simp
  have ten: "real_of_int 10 \<le> pow_half toy 100"
    unfolding toy_simps s by simp
  have "sweep_parameter toy CL 100 = \<lfloor>sqrt (real_of_int 100)\<rfloor>"
    and f1: "sweep_parameter toy FL 100 = 1"
    using sweep_generator_parameter [OF m1 near square, of 1 2 toy_world] by blast+
  then have c1: "sweep_parameter toy CL 100 = 10"
    unfolding s by simp
  have c5: "sweep_parameter toy CL 500 = \<lfloor>sqrt (real_of_int 500)\<rfloor>"
    and f5: "sweep_parameter toy FL 500 = 1"
    using sweep_generator_parameter [OF m5 near square, of 1 2 toy_world] by blast+
  show ?thesis
    by (intro conjI m1 m5 near ten c1 f1 c5 f5)
qed

section \<open>Decimal numerals and splitting\<close>

lemma digit_chr_digit: "d < 10 \<Longrightarrow> is_digit (digit_chr d)"
  by (simp add: is_digit_def digit_chr_def)

lemma digit_val_chr: "d < 10 \<Longrightarrow> digit_val (digit_chr d) = d"
  by (simp add: digit_val_def digit_chr_def)

lemma str_nat_digits: "list_all is_digit (str_nat n)"
proof (induction n rule: str_nat.induct)
  case (1 n)
  show ?case
  proof (cases "n < 10")
    case True
    then show ?thesis by (simp add: str_nat.simps [of n] digit_chr_digit)
  next
    case False
    with 1 show ?thesis by (simp add: str_nat.simps [of n] digit_chr_digit)
  qed
qed

lemma str_nat_nonempty: "str_nat n \<noteq> []"
  by (simp add: str_nat.simps [of n])

lemma digits_from_snoc:
  "list_all is_digit s \<Longrightarrow> is_digit c \<Longrightarrow>
     digits_from acc (s @ [c]) = map_option (\<lambda>v. v * 10 + digit_val c) (digits_from acc s)"
  by (induction s arbitrary: acc) simp_all

lemma nat_literal_snoc:
  assumes "list_all is_digit s" and "s \<noteq> []" and "is_digit c"
  shows "nat_literal (s @ [c]) = map_option (\<lambda>v. v * 10 + digit_val c) (nat_literal s)"
proof -
  from assms(2) obtain c0 cs where s: "s = c0 # cs" by (cases s) auto
  with assms(1) have "is_digit c0" and "list_all is_digit cs" by simp_all
  then show ?thesis
    using assms(3) by (simp add: s nat_literal_def digits_from_snoc)
qed

lemma nat_literal_str_nat: "nat_literal (str_nat n) = Some n"
proof (induction n rule: str_nat.induct)
  case (1 n)
  show ?case
  proof (cases "n < 10")
    case True
    then show ?thesis
      by (simp add: str_nat.simps [of n] nat_literal_def digit_chr_digit digit_val_chr)
  next
    case False
    then have ih: "nat_literal (str_nat (n div 10)) = Some (n div 10)" by (rule 1)
    have "nat_literal (str_nat (n div 10) @ [digit_chr (n mod 10)])
            = map_option (\<lambda>v. v * 10 + digit_val (digit_chr (n mod 10)))
                (nat_literal (str_nat (n div 10)))"
      by (rule nat_literal_snoc) (simp_all add: str_nat_digits str_nat_nonempty digit_chr_digit)
    then show ?thesis
      using False by (simp add: str_nat.simps [of n] ih digit_val_chr)
  qed
qed

lemma digit_not_space: "is_digit c \<Longrightarrow> \<not> is_space c"
  by (auto simp: is_digit_def is_space_def)

lemma strip_id:
  assumes "s \<noteq> []" and "\<not> is_space (hd s)" and "\<not> is_space (last s)"
  shows "strip s = s"
proof -
  have 1: "dropWhile is_space s = s"
    using assms(1,2) by (cases s) simp_all
  have "rev s \<noteq> []" and "\<not> is_space (hd (rev s))"
    using assms(1,3) by (simp_all add: hd_rev)
  then have "dropWhile is_space (rev s) = rev s"
    by (cases "rev s") simp_all
  with 1 show ?thesis by (simp add: strip_def)
qed

lemma strip_str_nat: "strip (str_nat n) = str_nat n"
proof (rule strip_id)
  show "str_nat n \<noteq> []" by (rule str_nat_nonempty)
  have "\<forall>c \<in> set (str_nat n). \<not> is_space c"
    using str_nat_digits [of n] by (auto simp: list_all_iff digit_not_space)
  then show "\<not> is_space (hd (str_nat n))" and "\<not> is_space (last (str_nat n))"
    using str_nat_nonempty [of n] by simp_all
qed

lemma str_int_chars: "c \<in> set (str_int i) \<Longrightarrow> is_digit c \<or> c = CHR ''-''"
  using str_nat_digits [of "nat i"] str_nat_digits [of "nat (- i)"]
  by (auto simp: str_int_def list_all_iff split: if_splits)

lemma str_int_nonempty: "str_int i \<noteq> []"
  by (simp add: str_int_def str_nat_nonempty)

lemma strip_str_int: "strip (str_int i) = str_int i"
proof (rule strip_id)
  show "str_int i \<noteq> []" by (rule str_int_nonempty)
  have "\<not> is_space CHR ''-''" by (simp add: is_space_def)
  then have "\<forall>c \<in> set (str_int i). \<not> is_space c"
    using str_int_chars [of _ i] digit_not_space by blast
  then show "\<not> is_space (hd (str_int i))" and "\<not> is_space (last (str_int i))"
    using str_int_nonempty [of i] by simp_all
qed

lemma py_int_str_int: "py_int (str_int i) = Some i"
proof (cases "i < 0")
  case True
  then show ?thesis
    using strip_str_int [of i] by (simp add: py_int_def str_int_def nat_literal_str_nat)
next
  case False
  obtain c cs where s: "str_nat (nat i) = c # cs"
    using str_nat_nonempty [of "nat i"] by (cases "str_nat (nat i)") auto
  then have "is_digit c" using str_nat_digits [of "nat i"] by simp
  then have "c \<noteq> CHR ''-''" and "c \<noteq> CHR ''+''" by (auto simp: is_digit_def)
  moreover have "nat_literal (c # cs) = Some (nat i)"
    using nat_literal_str_nat [of "nat i"] s by simp
  ultimately show ?thesis
    using False strip_str_int [of i] s by (simp add: py_int_def str_int_def)
qed

lemma replace_chr:
  "replace [a] new s = concat (map (\<lambda>c. if c = a then new else [c]) s)"
  by (induction s) (simp_all add: startswith_def)

lemma replace_chr_append:
  "replace [a] new (s @ t) = replace [a] new s @ replace [a] new t"
  by (simp add: replace_chr)

lemma concat_map_absent: "a \<notin> set s \<Longrightarrow> concat (map (\<lambda>c. if c = a then new else [c]) s) = s"
  by (induction s) auto

lemma split_sep_nonempty: "split_sep sep s \<noteq> []"
  by (induction s) (simp_all split: list.splits)

lemma split_sep_absent: "sep \<notin> set s \<Longrightarrow> split_sep sep s = [s]"
  by (induction s) auto

lemma split_sep_append:
  "sep \<notin> set a \<Longrightarrow> split_sep sep (a @ sep # rest) = a # split_sep sep rest"
  by (induction a) auto

lemma split_sep_members:
  "x \<in> set (split_sep sep s) \<Longrightarrow> sep \<notin> set x \<and> set x \<subseteq> set s"
proof (induction s arbitrary: x)
  case Nil
  then show ?case by simp
next
  case (Cons c s)
  obtain y ys where sp: "split_sep sep s = y # ys"
    using split_sep_nonempty [of sep s] by (cases "split_sep sep s") auto
  show ?case
  proof (cases "c = sep")
    case True
    with Cons show ?thesis by auto
  next
    case False
    with Cons.prems sp have "x = c # y \<or> x \<in> set ys" by simp
    then show ?thesis
    proof
      assume x: "x = c # y"
      have "sep \<notin> set y \<and> set y \<subseteq> set s" using Cons.IH [of y] sp by simp
      with x False show ?thesis by auto
    next
      assume "x \<in> set ys"
      then have "sep \<notin> set x \<and> set x \<subseteq> set s" using Cons.IH [of x] sp by simp
      then show ?thesis by auto
    qed
  qed
qed

lemma str_int_plain:
  "CHR ''_'' \<notin> set (str_int i)" "CHR ''.'' \<notin> set (str_int i)" "CHR ''/'' \<notin> set (str_int i)"
  "NL \<notin> set (str_int i)"
proof -
  have "c \<notin> set (str_int i)" if "\<not> is_digit c" and "c \<noteq> CHR ''-''" for c
    using that str_int_chars [of c i] by blast
  then show "CHR ''_'' \<notin> set (str_int i)" "CHR ''.'' \<notin> set (str_int i)"
    "CHR ''/'' \<notin> set (str_int i)" "NL \<notin> set (str_int i)"
    by (simp_all add: is_digit_def NL_def)
qed

lemma gen_name_split:
  "split_sep CHR ''_'' (replace ''.'' ''_'' (''gen_n'' @ str_int n @ ''_d'' @ str_int d @ ''.in''))
     = [''gen'', ''n'' @ str_int n, ''d'' @ str_int d, ''in'']"
proof -
  have r: "replace ''.'' ''_'' (''gen_n'' @ str_int n @ ''_d'' @ str_int d @ ''.in'')
             = ''gen_n'' @ str_int n @ ''_d'' @ str_int d @ ''_in''"
    by (simp only: replace_chr) (simp add: concat_map_absent str_int_plain)
  have 1: "split_sep CHR ''_'' (''gen'' @ CHR ''_'' # (''n'' @ str_int n @ ''_d'' @ str_int d @ ''_in''))
             = ''gen'' # split_sep CHR ''_'' (''n'' @ str_int n @ ''_d'' @ str_int d @ ''_in'')"
    by (rule split_sep_append) simp
  have 2: "split_sep CHR ''_'' ((''n'' @ str_int n) @ CHR ''_'' # (''d'' @ str_int d @ ''_in''))
             = (''n'' @ str_int n) # split_sep CHR ''_'' (''d'' @ str_int d @ ''_in'')"
    by (rule split_sep_append) (simp add: str_int_plain)
  have 3: "split_sep CHR ''_'' ((''d'' @ str_int d) @ CHR ''_'' # ''in'')
             = (''d'' @ str_int d) # split_sep CHR ''_'' ''in''"
    by (rule split_sep_append) (simp add: str_int_plain)
  show ?thesis
    unfolding r using 1 2 3 by simp
qed

lemma gen_basename:
  "fst (gen P Z n d k w) = Inr fp \<Longrightarrow>
     basename fp = ''gen_n'' @ str_int n @ ''_d'' @ str_int d @ ''.in''"
proof -
  assume "fst (gen P Z n d k w) = Inr fp"
  then have fp: "fp = ''data/gen/'' @ (''gen_n'' @ str_int n @ ''_d'' @ str_int d @ ''.in'')"
    by (simp add: gen_def Let_def path_join_def DATA_DIR_def GEN_DATA_DIR_def startswith_def
        split: if_splits)
  have "split_sep CHR ''/'' (''data'' @ CHR ''/'' # ''gen'' @ CHR ''/'' #
          (''gen_n'' @ str_int n @ ''_d'' @ str_int d @ ''.in''))
        = [''data'', ''gen'', ''gen_n'' @ str_int n @ ''_d'' @ str_int d @ ''.in'']"
    by (simp add: split_sep_append split_sep_absent str_int_plain)
  then show ?thesis by (simp add: fp basename_def)
qed

section \<open>Buckets\<close>

lemma bucket_dd_append:
  "bucket k' (dd_append k v dd) = (if k' = k then bucket k dd @ [v] else bucket k' dd)"
  by (induction dd) (auto simp: bucket_def)

lemma plot_file_lines_append:
  "plot_file_lines to_float (before @ after) st =
     (case plot_file_lines to_float before st of
        Inl e \<Rightarrow> Inl e
      | Inr st' \<Rightarrow> plot_file_lines to_float after st')"
  by (induction before arbitrary: st) (simp_all split: sum.splits)

section \<open>Grouping the rows of the synthetic instances\<close>

lemma str_int_100: "str_int 100 = ''100''" and str_int_2: "str_int 2 = ''2''"
  by (simp_all add: str_int_def str_nat.simps digit_chr_def chr_eval)

text \<open>
  C5 fails as stated at the name \<open>gen.in\<close>: the code takes every name that starts with
  \<open>gen\<close> for a name of the generator, and this one does not split into four parts; the row
  is neither put into a bucket nor skipped, the unpacking raises and \<open>plot_file\<close> ends.
\<close>

theorem synthetic_rows_counterexample:
  "startswith ''gen.in'' ''gen''
   \<and> classify ''mettu_plaxton_z1'' (split_ws '''') = Inr ''Mettu-Plaxton''
   \<and> plot_file_line nat_literal [''gen.in'', ''mettu_plaxton_z1'', '''', ''7'', ''1''] ([], [])
       = Inl UnpackError
   \<and> plot_file nat_literal ''results_fl_z1.csv''
        [[''gen.in'', ''mettu_plaxton_z1'', '''', ''7'', ''1'']] = Inl UnpackError"
  by (simp add: startswith_def classify_def split_ws_def plot_file_line_def plot_file_def
      plot_name_def)

text \<open>
  C5, as the code has it. A row whose instance name is one that the generator writes,
  \<open>gen_n<size>_d<dimension>.in\<close>, whose solver is recognised and whose values read as
  floats, is appended to the bucket \<open>by_dimension[dimension]\<close> and to the bucket
  \<open>by_size[size]\<close>, and every other bucket is as before. A row with a recognised solver
  whose instance name does not start with \<open>gen\<close> is skipped: the buckets are as before,
  and the charts of the file are those of the file without the row.
\<close>

theorem synthetic_rows_grouped:
  "(classify solution (split_ws args) = Inr lbl \<longrightarrow> those (map to_float params) = Some vals \<longrightarrow>
      (\<exists>bd bs.
         plot_file_line to_float
           ((''gen_n'' @ str_int n @ ''_d'' @ str_int d @ ''.in'') # solution # args # params)
           (by_dimension, by_size) = Inr (bd, bs)
         \<and> (\<forall>k. bucket k bd = (if k = d then bucket k by_dimension @ [(n, lbl, vals)]
                                else bucket k by_dimension))
         \<and> (\<forall>k. bucket k bs = (if k = n then bucket k by_size @ [(d, lbl, vals)]
                                else bucket k by_size))))
   \<and> (classify solution (split_ws args) = Inr lbl \<longrightarrow> \<not> startswith inp ''gen'' \<longrightarrow>
        plot_file_line to_float (inp # solution # args # params) st = Inr st
        \<and> plot_file_lines to_float (before @ [inp # solution # args # params] @ after) st0
            = plot_file_lines to_float (before @ after) st0
        \<and> plot_file to_float filename (before @ [inp # solution # args # params] @ after)
            = plot_file to_float filename (before @ after))"
proof (intro conjI impI)
  assume c: "classify solution (split_ws args) = Inr lbl"
    and v: "those (map to_float params) = Some vals"
  have g: "startswith (''gen_n'' @ str_int n @ ''_d'' @ str_int d @ ''.in'') ''gen''"
    by (simp add: startswith_def)
  have "plot_file_line to_float
           ((''gen_n'' @ str_int n @ ''_d'' @ str_int d @ ''.in'') # solution # args # params)
           (by_dimension, by_size)
          = Inr (dd_append d (n, lbl, vals) by_dimension, dd_append n (d, lbl, vals) by_size)"
    unfolding plot_file_line_def list.case c sum.case if_P [OF g] gen_name_split
    by (simp add: py_int_str_int v)
  then show "\<exists>bd bs.
         plot_file_line to_float
           ((''gen_n'' @ str_int n @ ''_d'' @ str_int d @ ''.in'') # solution # args # params)
           (by_dimension, by_size) = Inr (bd, bs)
         \<and> (\<forall>k. bucket k bd = (if k = d then bucket k by_dimension @ [(n, lbl, vals)]
                                else bucket k by_dimension))
         \<and> (\<forall>k. bucket k bs = (if k = n then bucket k by_size @ [(d, lbl, vals)]
                                else bucket k by_size))"
    by (simp add: bucket_dd_append)
next
  assume c: "classify solution (split_ws args) = Inr lbl"
    and g: "\<not> startswith inp ''gen''"
  show skip: "plot_file_line to_float (inp # solution # args # params) st = Inr st" for st
    using c g by (simp add: plot_file_line_def)
  show rows: "plot_file_lines to_float (before @ [inp # solution # args # params] @ after) st0
            = plot_file_lines to_float (before @ after) st0"
    by (simp add: plot_file_lines_append skip split: sum.splits)
  show "plot_file to_float filename (before @ [inp # solution # args # params] @ after)
            = plot_file to_float filename (before @ after)"
    using c g
    by (simp add: plot_file_def plot_file_lines_append plot_file_line_def split: sum.splits)
qed

theorem synthetic_rows_grouped_witness:
  "classify ''mettu_plaxton_z1'' (split_ws '''') = Inr ''Mettu-Plaxton''
   \<and> those (map nat_literal [''7'', ''1'']) = Some [7, 1]
   \<and> \<not> startswith ''iris.in'' ''gen''
   \<and> (\<exists>bd bs.
         plot_file_line nat_literal [''gen_n100_d2.in'', ''mettu_plaxton_z1'', '''', ''7'', ''1'']
           ([], []) = Inr (bd, bs)
         \<and> bucket 2 bd = [(100, ''Mettu-Plaxton'', [7, 1])] \<and> bucket 5 bd = []
         \<and> bucket 100 bs = [(2, ''Mettu-Plaxton'', [7, 1])] \<and> bucket 500 bs = [])
   \<and> plot_file_line nat_literal [''iris.in'', ''mettu_plaxton_z1'', '''', ''7'', ''1'']
        ([(2, [(100, ''x'', [])])], []) = Inr ([(2, [(100, ''x'', [])])], [])
   \<and> plot_file nat_literal ''results_fl_z1.csv''
        ([] @ [[''iris.in'', ''mettu_plaxton_z1'', '''', ''7'', ''1'']] @ [])
       = plot_file nat_literal ''results_fl_z1.csv'' ([] @ [])"
proof -
  have c: "classify ''mettu_plaxton_z1'' (split_ws '''') = Inr ''Mettu-Plaxton''"
    by (simp add: classify_def split_ws_def startswith_def)
  have v: "those (map nat_literal [''7'', ''1'']) = Some [7, 1]"
    by (simp add: nat_literal_def is_digit_def digit_val_def)
  have g: "\<not> startswith ''iris.in'' ''gen''"
    by (simp add: startswith_def)
  have e: "bucket k ([] :: (int, nat entry) defaultdict) = []" for k
    by (simp add: bucket_def)
  note t = synthetic_rows_grouped [of "''mettu_plaxton_z1''" "''''" "''Mettu-Plaxton''"
      nat_literal "[''7'', ''1'']" "[7, 1]" 100 2 "[]" "[]" "''iris.in''"
      "([(2, [(100, ''x'', [])])], [])" "[]" "[]" "([], [])" "''results_fl_z1.csv''"]
  from t c v have
    "\<exists>bd bs.
       plot_file_line nat_literal [''gen_n100_d2.in'', ''mettu_plaxton_z1'', '''', ''7'', ''1'']
         ([], []) = Inr (bd, bs)
       \<and> (\<forall>k. bucket k bd = (if k = 2 then bucket k [] @ [(100, ''Mettu-Plaxton'', [7, 1])]
                              else bucket k []))
       \<and> (\<forall>k. bucket k bs = (if k = 100 then bucket k [] @ [(2, ''Mettu-Plaxton'', [7, 1])]
                              else bucket k []))"
    unfolding str_int_100 str_int_2 by simp
  then have 1: "\<exists>bd bs.
         plot_file_line nat_literal [''gen_n100_d2.in'', ''mettu_plaxton_z1'', '''', ''7'', ''1'']
           ([], []) = Inr (bd, bs)
         \<and> bucket 2 bd = [(100, ''Mettu-Plaxton'', [7, 1])] \<and> bucket 5 bd = []
         \<and> bucket 100 bs = [(2, ''Mettu-Plaxton'', [7, 1])] \<and> bucket 500 bs = []"
    unfolding e by fastforce
  from t c g have 2:
    "plot_file_line nat_literal [''iris.in'', ''mettu_plaxton_z1'', '''', ''7'', ''1'']
        ([(2, [(100, ''x'', [])])], []) = Inr ([(2, [(100, ''x'', [])])], [])"
    and 3: "plot_file nat_literal ''results_fl_z1.csv''
        ([] @ [[''iris.in'', ''mettu_plaxton_z1'', '''', ''7'', ''1'']] @ [])
       = plot_file nat_literal ''results_fl_z1.csv'' ([] @ [])"
    by blast+
  show ?thesis by (intro conjI c v g 1 2 3)
qed

section \<open>The static datasets\<close>

lemma join_chars: "set (join sep items) \<subseteq> set sep \<union> \<Union> (set ` set items)"
  by (induction sep items rule: join.induct) auto

lemma lines_split:
  assumes "NL \<notin> set h" and "\<forall>x \<in> set items. NL \<notin> set (f x)"
  shows "split_sep NL (h @ [NL] @ concat (map (\<lambda>x. f x @ [NL]) items)) = h # map f items @ [[]]"
  using assms
proof (induction items arbitrary: h)
  case Nil
  then show ?case by (simp add: split_sep_append)
next
  case (Cons x items)
  have "split_sep NL (f x @ [NL] @ concat (map (\<lambda>x. f x @ [NL]) items))
          = f x # map f items @ [[]]"
    using Cons.prems(2) by (intro Cons.IH) simp_all
  then show ?case
    using Cons.prems(1) by (simp add: split_sep_append)
qed

lemma first_line:
  "NL \<notin> set h \<Longrightarrow> takeWhile (\<lambda>c. c \<noteq> NL) (h @ [NL] @ body) = h"
  by (induction h) auto

lemma csv_line_fields:
  assumes "plant \<in> set (map (split_sep CHR '','') (split_sep NL text))"
  shows "NL \<notin> set (join '' '' (butlast plant))"
proof -
  from assms obtain ln where ln: "ln \<in> set (split_sep NL text)"
    and plant: "plant = split_sep CHR '','' ln"
    by auto
  have no: "NL \<notin> set ln" using split_sep_members [OF ln] by simp
  have "NL \<notin> set x" if "x \<in> set (butlast plant)" for x
  proof -
    from that have "x \<in> set (split_sep CHR '','' ln)"
      unfolding plant by (rule in_set_butlastD)
    then have "set x \<subseteq> set ln" using split_sep_members by blast
    with no show ?thesis by blast
  qed
  moreover have "NL \<notin> set '' ''" by (simp add: NL_def)
  ultimately show ?thesis using join_chars [of "'' ''" "butlast plant"] by blast
qed

lemma dataset_paths:
  "path_join ''iris'' ''iris.data'' = ''iris/iris.data''"
  "path_join (path_join DATA_DIR ''iris'') ''iris.in'' = ''data/iris/iris.in''"
  "path_join ''maas_imdb'' ''maas_imdb.csv'' = ''maas_imdb/maas_imdb.csv''"
  "path_join (path_join DATA_DIR ''maas_imdb'') ''maas_imdb.in'' = ''data/maas_imdb/maas_imdb.in''"
  by (simp_all add: path_join_def DATA_DIR_def startswith_def)

text \<open>
  C7 fails as stated for the word-frequency transform at a source file that has no row
  after its header row: \<open>words[0]\<close> raises \<open>IndexError\<close>, and the output file,
  already opened for writing, stays empty, without a header.
\<close>

theorem imdb_header_counterexample:
  "files header_only_world ''maas_imdb/maas_imdb.csv'' = Some ''id,label,good,bad''
   \<and> fst (gen_imdb toy header_only_world) = Inl IndexError
   \<and> files (snd (gen_imdb toy header_only_world)) ''data/maas_imdb/maas_imdb.in'' = Some []"
  by (simp add: gen_imdb_def dataset_paths header_only_world_def toy_simps NL_def)

text \<open>
  C7, as the code has it. For every source file the iris transform writes a file whose
  lines are the header \<open><count> <columns of the first row - 1> 3\<close> and then, for each row
  of the source, its fields but the last, joined by spaces. For every source file with a
  row after its header row the word-frequency transform writes a file whose first line is
  the header \<open><count> <columns of the first data row - 2> 200\<close>, followed by the fields of
  each data row but the first two, joined by spaces and ended by a newline.
\<close>

theorem dataset_headers:
  "(files w ''iris/iris.data'' = Some raw \<longrightarrow>
      (\<exists>first rest out.
         map (split_sep CHR '','') (split_sep NL (strip (read_text raw))) = first # rest
         \<and> fst (gen_iris w) = Inr ''data/iris/iris.in''
         \<and> files (snd (gen_iris w)) ''data/iris/iris.in'' = Some out
         \<and> split_sep NL out
             = (str_int (int (length (first # rest))) @ '' '' @ str_int (int (length first) - 1)
                  @ '' 3'')
               # map (\<lambda>plant. join '' '' (butlast plant)) (first # rest) @ [[]]))
   \<and> (files w ''maas_imdb/maas_imdb.csv'' = Some raw' \<longrightarrow>
      drop 1 (csv_reader P raw') = first' # rest' \<longrightarrow>
      (\<exists>out.
         fst (gen_imdb P w) = Inr ''data/maas_imdb/maas_imdb.in''
         \<and> files (snd (gen_imdb P w)) ''data/maas_imdb/maas_imdb.in'' = Some out
         \<and> takeWhile (\<lambda>c. c \<noteq> NL) out
             = str_int (int (length (first' # rest'))) @ '' '' @ str_int (int (length first') - 2)
                 @ '' 200''
         \<and> out = takeWhile (\<lambda>c. c \<noteq> NL) out @ [NL]
                   @ concat (map (\<lambda>plant. join '' '' (drop 2 plant) @ [NL]) (first' # rest'))))"
proof (intro conjI impI)
  assume f: "files w ''iris/iris.data'' = Some raw"
  let ?plants = "map (split_sep CHR '','') (split_sep NL (strip (read_text raw)))"
  obtain first rest where p: "?plants = first # rest"
    using split_sep_nonempty [of NL "strip (read_text raw)"] by (cases ?plants) auto
  let ?h = "str_int (int (length (first # rest))) @ '' '' @ str_int (int (length first) - 1) @ '' 3''"
  let ?out = "?h @ [NL] @ concat (map (\<lambda>plant. join '' '' (butlast plant) @ [NL]) (first # rest))"
  have h: "NL \<notin> set ?h"
    using str_int_plain(4) by (simp add: NL_def)
  have b: "\<forall>plant \<in> set (first # rest). NL \<notin> set (join '' '' (butlast plant))"
    using csv_line_fields [of _ "strip (read_text raw)"] unfolding p by blast
  have 1: "fst (gen_iris w) = Inr ''data/iris/iris.in''"
    and 2: "files (snd (gen_iris w)) ''data/iris/iris.in'' = Some ?out"
    using f p by (simp_all add: gen_iris_def dataset_paths Let_def)
  have 3: "split_sep NL ?out
             = ?h # map (\<lambda>plant. join '' '' (butlast plant)) (first # rest) @ [[]]"
    using h b by (rule lines_split)
  show "\<exists>first rest out.
         ?plants = first # rest
         \<and> fst (gen_iris w) = Inr ''data/iris/iris.in''
         \<and> files (snd (gen_iris w)) ''data/iris/iris.in'' = Some out
         \<and> split_sep NL out
             = (str_int (int (length (first # rest))) @ '' '' @ str_int (int (length first) - 1)
                  @ '' 3'')
               # map (\<lambda>plant. join '' '' (butlast plant)) (first # rest) @ [[]]"
    by (intro exI [of _ first] exI [of _ rest] exI [of _ ?out] conjI p 1 2 3)
next
  assume f: "files w ''maas_imdb/maas_imdb.csv'' = Some raw'"
    and d: "drop 1 (csv_reader P raw') = first' # rest'"
  let ?h = "str_int (int (length (first' # rest'))) @ '' '' @ str_int (int (length first') - 2)
              @ '' 200''"
  let ?out = "?h @ [NL] @ concat (map (\<lambda>plant. join '' '' (drop 2 plant) @ [NL]) (first' # rest'))"
  have h: "NL \<notin> set ?h"
    using str_int_plain(4) by (simp add: NL_def)
  have 1: "fst (gen_imdb P w) = Inr ''data/maas_imdb/maas_imdb.in''"
    and 2: "files (snd (gen_imdb P w)) ''data/maas_imdb/maas_imdb.in'' = Some ?out"
    using f d by (simp_all add: gen_imdb_def dataset_paths Let_def)
  have 3: "takeWhile (\<lambda>c. c \<noteq> NL) ?out = ?h"
    using h by (rule first_line)
  show "\<exists>out.
         fst (gen_imdb P w) = Inr ''data/maas_imdb/maas_imdb.in''
         \<and> files (snd (gen_imdb P w)) ''data/maas_imdb/maas_imdb.in'' = Some out
         \<and> takeWhile (\<lambda>c. c \<noteq> NL) out
             = str_int (int (length (first' # rest'))) @ '' '' @ str_int (int (length first') - 2)
                 @ '' 200''
         \<and> out = takeWhile (\<lambda>c. c \<noteq> NL) out @ [NL]
                   @ concat (map (\<lambda>plant. join '' '' (drop 2 plant) @ [NL]) (first' # rest'))"
    using 1 2 3 by (intro exI [of _ ?out]) (simp only: simp_thms)
qed

lemma datasets_world_files:
  "files datasets_world ''iris/iris.data''
     = Some (''5.1,3.5,setosa'' @ [NL] @ ''4.9,3.0,virginica'' @ [NL])"
  "files datasets_world ''maas_imdb/maas_imdb.csv''
     = Some (''id,label,good,bad'' @ [NL] @ ''1,pos,2,0'' @ [NL] @ ''2,neg,0,3'')"
  by (simp_all add: datasets_world_def)

lemma datasets_world_rows:
  "drop 1 (csv_reader toy (''id,label,good,bad'' @ [NL] @ ''1,pos,2,0'' @ [NL] @ ''2,neg,0,3''))
     = [''1'', ''pos'', ''2'', ''0''] # [[''2'', ''neg'', ''0'', ''3'']]"
  by (simp add: toy_simps NL_def)

lemma datasets_world_outputs:
  "files (snd (gen_iris datasets_world)) ''data/iris/iris.in''
     = Some (''2 2 3'' @ [NL] @ ''5.1 3.5'' @ [NL] @ ''4.9 3.0'' @ [NL])"
  "files (snd (gen_imdb toy datasets_world)) ''data/maas_imdb/maas_imdb.in''
     = Some (''2 2 200'' @ [NL] @ ''2 0'' @ [NL] @ ''0 3'' @ [NL])"
  by (simp_all add: gen_iris_def gen_imdb_def dataset_paths datasets_world_def toy_simps
      read_text_def readlines_def strip_def is_space_def NL_def CR_def Let_def
      str_int_def str_nat.simps digit_chr_def chr_eval)

theorem dataset_headers_witness:
  "files datasets_world ''iris/iris.data''
     = Some (''5.1,3.5,setosa'' @ [NL] @ ''4.9,3.0,virginica'' @ [NL])
   \<and> files datasets_world ''maas_imdb/maas_imdb.csv''
     = Some (''id,label,good,bad'' @ [NL] @ ''1,pos,2,0'' @ [NL] @ ''2,neg,0,3'')
   \<and> drop 1 (csv_reader toy (''id,label,good,bad'' @ [NL] @ ''1,pos,2,0'' @ [NL] @ ''2,neg,0,3''))
     = [''1'', ''pos'', ''2'', ''0''] # [[''2'', ''neg'', ''0'', ''3'']]
   \<and> fst (gen_iris datasets_world) = Inr ''data/iris/iris.in''
   \<and> fst (gen_imdb toy datasets_world) = Inr ''data/maas_imdb/maas_imdb.in''
   \<and> files (snd (gen_iris datasets_world)) ''data/iris/iris.in''
     = Some (''2 2 3'' @ [NL] @ ''5.1 3.5'' @ [NL] @ ''4.9 3.0'' @ [NL])
   \<and> files (snd (gen_imdb toy datasets_world)) ''data/maas_imdb/maas_imdb.in''
     = Some (''2 2 200'' @ [NL] @ ''2 0'' @ [NL] @ ''0 3'' @ [NL])"
proof -
  note t = dataset_headers [of datasets_world
      "''5.1,3.5,setosa'' @ [NL] @ ''4.9,3.0,virginica'' @ [NL]"
      "''id,label,good,bad'' @ [NL] @ ''1,pos,2,0'' @ [NL] @ ''2,neg,0,3''"
      toy "[''1'', ''pos'', ''2'', ''0'']" "[[''2'', ''neg'', ''0'', ''3'']]"]
  from t datasets_world_files(1)
  have 1: "fst (gen_iris datasets_world) = Inr ''data/iris/iris.in''" by blast
  from t datasets_world_files(2) datasets_world_rows
  have 2: "fst (gen_imdb toy datasets_world) = Inr ''data/maas_imdb/maas_imdb.in''" by blast
  show ?thesis
    by (intro conjI datasets_world_files datasets_world_rows 1 2 datasets_world_outputs)
qed

end
